theory Spec2Isabelle
  imports Complex_Main
begin

section \<open>JavaScript arrays of object references\<close>

text \<open>
  Live users are heap objects; the memory arrays of a factory and of a shop hold
  references to them, and \<open>Array.prototype.indexOf\<close> compares references. A live user
  is therefore modelled by its reference, a natural number.
\<close>

type_synonym uref = nat

text \<open>\<open>indexOf\<close>: the first index holding the element, or \<open>-1\<close>.\<close>

fun indexOf :: "'a list \<Rightarrow> 'a \<Rightarrow> int" where
  "indexOf [] x = - 1"
| "indexOf (y # ys) x =
     (if y = x then 0
      else (let i = indexOf ys x in if i < 0 then - 1 else i + 1))"

text \<open>
  \<open>xs.splice(start, 1)\<close>: a negative start counts from the end (and is clamped at 0),
  a start beyond the end is clamped to the length; one element is deleted when there is
  one at that position.
\<close>

definition splice1 :: "'a list \<Rightarrow> int \<Rightarrow> 'a list" where
  "splice1 xs start =
     (let n = int (length xs);
          s = (if start < 0 then max (n + start) 0 else min start n)
      in take (nat s) xs @ drop (nat s + 1) xs)"

definition push :: "'a list \<Rightarrow> 'a \<Rightarrow> 'a list" where
  "push xs x = xs @ [x]"

section \<open>Errors, callbacks and the game's collaborators\<close>

text \<open>
  Every asynchronous operation of the source reports through a Node-style callback
  \<open>callback(err, value)\<close>. A call that calls back once is modelled by a value of
  \<open>error + 'a\<close>: \<open>Inl e\<close> is \<open>callback(e)\<close>, \<open>Inr v\<close> is \<open>callback(null, v)\<close>.
\<close>

datatype error =
    Failure string  \<comment> \<open>an error called back by a collaborator\<close>
  | UserHasNoTeam  \<comment> \<open>\<open>Error('User doesn\'t have team')\<close>\<close>
  | ConquerNotAboveZero  \<comment> \<open>\<open>Error('Conquer value must be above zero')\<close>\<close>
  | AllyFactory  \<comment> \<open>\<open>Error('User can\'t take over ally factory')\<close>\<close>
  | SelfNotDefined  \<comment> \<open>\<open>ReferenceError\<close>: the identifier \<open>self\<close> is not bound\<close>

definition on_success :: "error + 'a \<Rightarrow> ('a \<Rightarrow> error + 'b) \<Rightarrow> error + 'b" where
  "on_success r k = (case r of Inl e \<Rightarrow> Inl e | Inr v \<Rightarrow> k v)"

type_synonym team = nat
type_synonym coordinate = "int \<times> int"

text \<open>
  The calls into collaborators that are not part of the live objects (the document
  models, the game, the live user, the managers). Each of them can call back an error;
  which ones do is part of the world the code runs in.
\<close>

datatype call =
    GetConfig
  | GetTeam | GetLevel | GetDefence | GetIn | GetOut | GetLocation | GetName
  | SubtractIn | AddOut
  | SetTeam | SetLevel | SetIn | SetOut | SetDefence
  | Delete
  | BroadcastData
  | GetStage | GetUserState uref | GetGameUser uref | GameUserGetTeam uref
  | UserGetTeam uref | UserIsTeam uref | UserGetStrength uref | UserGetName uref
  | TeamGetName team
  | GenerateToken | FindNewShopUser | GetTeamPreferredShopCountDelta
  | GetGameUserModel | GameGetUser | GetOutBuyPriceForGameUser
  | GameUserGetOut | GameUserGetMoney | GameUserSubtractOut | GameUserAddMoney
  | GetBalanceTable

text \<open>
  The game configuration object (\<open>gameConfig.factory\<close>, \<open>gameConfig.shop\<close>) is defined
  outside the sources at hand; its functions and constants are parameters. The functions
  without arguments (\<open>getShopLifetime()\<close>, \<open>getInSellPrice()\<close>, \<open>getOutBuyPrice()\<close>) are
  given by the value they return to the one call \<open>load\<close> makes.
\<close>

record factoryConfig =
  c_getProductionIn :: "int \<Rightarrow> int"
  c_getProductionOut :: "int \<Rightarrow> int"
  c_getRange :: "int \<Rightarrow> rat"
  c_getActiveRange :: "int \<Rightarrow> rat"
  c_attackNewIn :: "int \<Rightarrow> int"
  c_attackNewOut :: "int \<Rightarrow> int"
  c_attackNewDefence :: "int \<Rightarrow> int"

record shopConfig =
  c_range :: rat
  c_activeRange :: rat
  c_shopAlertTime :: int
  c_workerInterval :: int
  c_getShopLifetime :: int
  c_getInSellPrice :: rat
  c_getOutBuyPrice :: rat

record gameConfig =
  c_factory :: factoryConfig
  c_shop :: shopConfig

text \<open>The stored document of a factory (\<open>FactoryModel\<close>): the fields the live factory uses.\<close>

record factoryModel =
  fm_team :: "team option"
  fm_level :: int
  fm_defence :: int
  fm_in :: int
  fm_out :: int
  fm_location :: coordinate

record userState =
  player :: bool
  special :: bool
  spectator :: bool

text \<open>
  The world a live factory runs in: which collaborator calls fail, the configuration,
  the factory's document and whether it still exists, the game stage, and what the live
  users and game users answer. \<open>None\<close> in a team or strength is JavaScript's \<open>null\<close>.
  \<open>w_isTeam\<close> is what \<open>liveUser.isTeam(team, callback)\<close> calls back and \<open>w_isInRange\<close>
  is \<open>Coordinate.isInRange\<close>; both classes are outside the sources at hand. The last
  four fields are what the token generator, \<open>liveUser.getTeamModel()\<close> and the shop
  manager (\<open>findNewShopUser\<close>, \<open>getTeamPreferredShopCountDelta\<close>) answer.
\<close>

record world =
  w_fails :: "call \<Rightarrow> error option"
  w_config :: gameConfig
  w_model :: factoryModel
  w_modelPresent :: bool
  w_destroyed :: bool
  w_stage :: int
  w_userState :: "uref \<Rightarrow> userState"
  w_hasGameUser :: "uref \<Rightarrow> bool"
  w_gameUserTeam :: "uref \<Rightarrow> team option"
  w_hasRecentLocation :: "uref \<Rightarrow> bool"
  w_userLocation :: "uref \<Rightarrow> coordinate"
  w_userId :: "uref \<Rightarrow> nat"
  w_userTeam :: "uref \<Rightarrow> team option"
  w_isTeam :: "uref \<Rightarrow> team option \<Rightarrow> bool"
  w_strength :: "uref \<Rightarrow> int option"
  w_isInRange :: "coordinate \<Rightarrow> coordinate \<Rightarrow> rat \<Rightarrow> bool"
  w_newToken :: string
  w_teamModel :: "uref \<Rightarrow> team option"
  w_newShopUser :: "team \<Rightarrow> uref option"
  w_shopCountDelta :: "team \<Rightarrow> int"

definition fetch :: "world \<Rightarrow> call \<Rightarrow> 'a \<Rightarrow> error + 'a" where
  "fetch w c v = (case w_fails w c of Some e \<Rightarrow> Inl e | None \<Rightarrow> Inr v)"

section \<open>Live factory: visibility, range and ping memory\<close>

text \<open>
  The in-memory part of \<open>Factory\<close> (Factory.js, constructor): the identifier of the
  factory and the three memory arrays, all empty at construction.
\<close>

record factory =
  f_id :: nat
  userVisibleMem :: "uref list"
  userRangeMem :: "uref list"
  userPingMem :: "uref list"

definition Factory :: "nat \<Rightarrow> factory" where
  "Factory i = \<lparr>f_id = i, userVisibleMem = [], userRangeMem = [], userPingMem = []\<rparr>"

definition isInVisibilityMemory :: "factory \<Rightarrow> uref \<Rightarrow> bool" where
  "isInVisibilityMemory f liveUser = (indexOf (userVisibleMem f) liveUser \<ge> 0)"

definition setInVisibilityMemory :: "factory \<Rightarrow> uref \<Rightarrow> bool \<Rightarrow> bool \<times> factory" where
  "setInVisibilityMemory f liveUser visible =
     (let lastState = isInVisibilityMemory f liveUser
      in if lastState = visible then (False, f)
         else if visible
           then (True, f\<lparr>userVisibleMem := push (userVisibleMem f) liveUser\<rparr>)
           else (True, f\<lparr>userVisibleMem :=
                   splice1 (userVisibleMem f) (indexOf (userVisibleMem f) liveUser)\<rparr>))"

definition isInRangeMemory :: "factory \<Rightarrow> uref \<Rightarrow> bool" where
  "isInRangeMemory f liveUser = (indexOf (userRangeMem f) liveUser \<ge> 0)"

definition setInRangeMemory :: "factory \<Rightarrow> uref \<Rightarrow> bool \<Rightarrow> bool \<times> factory" where
  "setInRangeMemory f liveUser inRange =
     (let lastState = isInRangeMemory f liveUser
      in if lastState = inRange then (False, f)
         else if inRange
           then (True, f\<lparr>userRangeMem := push (userRangeMem f) liveUser\<rparr>)
           else (True, f\<lparr>userRangeMem :=
                   splice1 (userRangeMem f) (indexOf (userRangeMem f) liveUser)\<rparr>))"

definition isInPingMemory :: "factory \<Rightarrow> uref \<Rightarrow> bool" where
  "isInPingMemory f liveUser = (indexOf (userPingMem f) liveUser \<ge> 0)"

text \<open>
  \<open>setInPingMemory\<close> also asks the game manager to broadcast location data for the
  user, unless the third argument is given and false (\<open>None\<close> is \<open>undefined\<close>). The
  request is returned: the update interval (\<open>config.game.locationUpdateInterval\<close>, a
  parameter here) when the factory became pinged, \<open>null\<close> otherwise, and the user.
\<close>

datatype broadcast = BroadcastLocationData "int option" uref

definition setInPingMemory ::
  "int \<Rightarrow> factory \<Rightarrow> uref \<Rightarrow> bool \<Rightarrow> bool option \<Rightarrow> (bool \<times> factory) \<times> broadcast list" where
  "setInPingMemory locationUpdateInterval f liveUser isPinged sendLocationUpdate =
     (let lastState = isInPingMemory f liveUser
      in if lastState = isPinged then ((False, f), [])
         else
           (let f' = (if isPinged
                      then f\<lparr>userPingMem := push (userPingMem f) liveUser\<rparr>
                      else f\<lparr>userPingMem :=
                             splice1 (userPingMem f) (indexOf (userPingMem f) liveUser)\<rparr>);
                bs = (if sendLocationUpdate = None \<or> sendLocationUpdate = Some True
                      then [BroadcastLocationData
                              (if isPinged then Some locationUpdateInterval else None) liveUser]
                      else [])
            in ((True, f'), bs)))"

section \<open>Live factory: reading the document and the configuration\<close>

definition getConfig :: "world \<Rightarrow> error + gameConfig" where
  "getConfig w = fetch w GetConfig (w_config w)"

definition getTeam :: "world \<Rightarrow> error + team option" where
  "getTeam w = fetch w GetTeam (fm_team (w_model w))"

definition getLevel :: "world \<Rightarrow> error + int" where
  "getLevel w = fetch w GetLevel (fm_level (w_model w))"

definition getDefence :: "world \<Rightarrow> error + int" where
  "getDefence w = fetch w GetDefence (fm_defence (w_model w))"

definition getIn :: "world \<Rightarrow> error + int" where
  "getIn w = fetch w GetIn (fm_in (w_model w))"

definition getOut :: "world \<Rightarrow> error + int" where
  "getOut w = fetch w GetOut (fm_out (w_model w))"

definition getLocation :: "world \<Rightarrow> error + coordinate" where
  "getLocation w = fetch w GetLocation (fm_location (w_model w))"

text \<open>
  \<open>getProductionIn\<close> and \<open>getProductionOut\<close> fetch the configuration and the level side
  by side under a latch and call back the first error; the model takes the fetches in
  the order the source starts them.
\<close>

definition getProductionIn :: "world \<Rightarrow> error + int" where
  "getProductionIn w =
     on_success (getConfig w) (\<lambda>gameConfig.
     on_success (getLevel w) (\<lambda>level.
       Inr (c_getProductionIn (c_factory gameConfig) level)))"

definition getProductionOut :: "world \<Rightarrow> error + int" where
  "getProductionOut w =
     on_success (getConfig w) (\<lambda>gameConfig.
     on_success (getLevel w) (\<lambda>level.
       Inr (c_getProductionOut (c_factory gameConfig) level)))"

text \<open>
  \<open>Factory.prototype.getRange\<close>. The live user may be \<open>undefined\<close> (\<open>None\<close>), which no
  memory array holds, so that \<open>indexOf\<close> answers \<open>-1\<close>.
\<close>

definition getRange :: "world \<Rightarrow> factory \<Rightarrow> uref option \<Rightarrow> error + rat" where
  "getRange w f liveUser =
     on_success (getConfig w) (\<lambda>gameConfig.
     on_success (getLevel w) (\<lambda>level.
       if (case liveUser of None \<Rightarrow> False | Some u \<Rightarrow> isInRangeMemory f u)
       then Inr (c_getActiveRange (c_factory gameConfig) level)
       else Inr (c_getRange (c_factory gameConfig) level)))"

text \<open>\<open>Factory.prototype.isUserInRange\<close>; here \<open>None\<close> is the \<open>null\<close> user.\<close>

definition isUserInRange :: "world \<Rightarrow> factory \<Rightarrow> uref option \<Rightarrow> error + bool" where
  "isUserInRange w f liveUser =
     (case liveUser of
        None \<Rightarrow> Inr False
      | Some u \<Rightarrow>
          if \<not> w_hasRecentLocation w u then Inr False
          else
            on_success (getRange w f liveUser) (\<lambda>factoryRange.
            on_success (getLocation w) (\<lambda>factoryLocation.
              Inr (w_isInRange w factoryLocation (w_userLocation w u) factoryRange))))"

section \<open>Live shop: range memory\<close>

text \<open>
  \<open>Shop\<close> (constructor): the token, the prices and the range are \<open>null\<close> until the
  shop is loaded, the range memory is empty. \<open>s_ref\<close> is the identity of the object,
  by which the shop manager's list is searched; \<open>s_user\<close> is the live user the shop is
  attached to, its owner.
\<close>

record shop =
  s_ref :: nat
  s_token :: "string option"
  s_user :: uref
  s_inSellPrice :: "rat option"
  s_outBuyPrice :: "rat option"
  s_range :: "rat option"
  s_userRangeMem :: "uref list"

definition Shop :: "nat \<Rightarrow> uref \<Rightarrow> shop" where
  "Shop ref user =
     \<lparr>s_ref = ref, s_token = None, s_user = user, s_inSellPrice = None,
      s_outBuyPrice = None, s_range = None, s_userRangeMem = []\<rparr>"

definition shop_isInRangeMemory :: "shop \<Rightarrow> uref \<Rightarrow> bool" where
  "shop_isInRangeMemory s liveUser = (indexOf (s_userRangeMem s) liveUser \<ge> 0)"

definition shop_setInRangeMemory :: "shop \<Rightarrow> uref \<Rightarrow> bool \<Rightarrow> bool \<times> shop" where
  "shop_setInRangeMemory s liveUser inRange =
     (let lastState = shop_isInRangeMemory s liveUser
      in if lastState = inRange then (False, s)
         else if inRange
           then (True, s\<lparr>s_userRangeMem := push (s_userRangeMem s) liveUser\<rparr>)
           else (True, s\<lparr>s_userRangeMem :=
                   splice1 (s_userRangeMem s) (indexOf (s_userRangeMem s) liveUser)\<rparr>))"

text \<open>
  The memory arrays are private and written by these operations only. A history of a
  factory (of a shop) is a list of calls applied to the freshly constructed object.
\<close>

datatype memcall =
    SetVisibility uref bool
  | SetRange uref bool
  | SetPing uref bool "bool option"

fun call_factory :: "int \<Rightarrow> memcall \<Rightarrow> factory \<Rightarrow> factory" where
  "call_factory iv (SetVisibility u b) f = snd (setInVisibilityMemory f u b)"
| "call_factory iv (SetRange u b) f = snd (setInRangeMemory f u b)"
| "call_factory iv (SetPing u b s) f = snd (fst (setInPingMemory iv f u b s))"

definition factory_after :: "int \<Rightarrow> nat \<Rightarrow> memcall list \<Rightarrow> factory" where
  "factory_after iv i calls = fold (call_factory iv) calls (Factory i)"

definition shop_after :: "nat \<Rightarrow> uref \<Rightarrow> (uref \<times> bool) list \<Rightarrow> shop" where
  "shop_after ref owner calls =
     fold (\<lambda>(u, b) s. snd (shop_setInRangeMemory s u b)) calls (Shop ref owner)"


section \<open>Live factory: conquer value\<close>

text \<open>
  The loop of \<open>getConquer\<close> over the in-range memory. A user without a recent location
  is skipped; for the others the alliance and the strength are fetched, and a user whose
  strength is \<open>null\<close> adds nothing and is not counted.
\<close>

fun conquerUsers :: "world \<Rightarrow> team option \<Rightarrow> uref list \<Rightarrow> int \<times> nat \<Rightarrow> error + (int \<times> nat)" where
  "conquerUsers w factoryTeam [] acc = Inr acc"
| "conquerUsers w factoryTeam (liveUser # rest) (conquerValue, userCount) =
     (if \<not> w_hasRecentLocation w liveUser
      then conquerUsers w factoryTeam rest (conquerValue, userCount)
      else
        (case fetch w (UserIsTeam liveUser) (w_isTeam w liveUser factoryTeam) of
           Inl e \<Rightarrow> Inl e
         | Inr ally \<Rightarrow>
             (case fetch w (UserGetStrength liveUser) (w_strength w liveUser) of
                Inl e \<Rightarrow> Inl e
              | Inr None \<Rightarrow> conquerUsers w factoryTeam rest (conquerValue, userCount)
              | Inr (Some userStrength) \<Rightarrow>
                  conquerUsers w factoryTeam rest
                    (conquerValue + (if ally then - userStrength else userStrength),
                     userCount + 1))))"

text \<open>
  \<open>Factory.prototype.getConquer\<close> calls back \<open>(err)\<close> or \<open>(null, conquerValue, userCount)\<close>.
  The fetches run side by side; the addends commute, and the model takes them in the
  order the source starts them, which fixes the error called back when several fail.
\<close>

definition getConquer :: "world \<Rightarrow> factory \<Rightarrow> error + (int \<times> nat)" where
  "getConquer w f =
     on_success (getDefence w) (\<lambda>defence.
     on_success (getTeam w) (\<lambda>factoryTeam.
       conquerUsers w factoryTeam (userRangeMem f) (0 - defence, 0)))"

section \<open>Live factory: tick\<close>

text \<open>
  Modelled from the spec: \<open>FactoryModel.subtractIn\<close>, \<open>addOut\<close> and the setters
  \<open>setTeam\<close>, \<open>setLevel\<close>, \<open>setIn\<close>, \<open>setOut\<close>, \<open>setDefence\<close> are outside the sources at
  hand. A write either calls back an error and leaves the document as it is, or updates
  the field it is named after.
\<close>

definition write_model :: "world \<Rightarrow> call \<Rightarrow> (factoryModel \<Rightarrow> factoryModel) \<Rightarrow> error option \<times> world" where
  "write_model w c upd =
     (case w_fails w c of
        Some e \<Rightarrow> (Some e, w)
      | None \<Rightarrow> (None, w\<lparr>w_model := upd (w_model w)\<rparr>))"

definition subtractIn :: "world \<Rightarrow> int \<Rightarrow> error option \<times> world" where
  "subtractIn w amount = write_model w SubtractIn (\<lambda>m. m\<lparr>fm_in := fm_in m - amount\<rparr>)"

definition addOut :: "world \<Rightarrow> int \<Rightarrow> error option \<times> world" where
  "addOut w amount = write_model w AddOut (\<lambda>m. m\<lparr>fm_out := fm_out m + amount\<rparr>)"

fun first_error :: "error option list \<Rightarrow> error option" where
  "first_error [] = None"
| "first_error (Some e # rs) = Some e"
| "first_error (None # rs) = first_error rs"

text \<open>
  \<open>broadcastData\<close> sends the factory data to the users that see the factory; it does
  not write the document. What it calls back is part of the world.
\<close>

definition broadcastData :: "world \<Rightarrow> error option" where
  "broadcastData w = w_fails w BroadcastData"

text \<open>
  \<open>Factory.prototype.tick\<close>: the value called back (\<open>None\<close> is \<open>callback(null)\<close>) and
  the world after. Both writes are started before either answers, so one is done even
  when the other fails.
\<close>

definition tick :: "world \<Rightarrow> error option \<times> world" where
  "tick w =
     (case getProductionIn w of
        Inl e \<Rightarrow> (Some e, w)
      | Inr productionIn \<Rightarrow>
     (case getProductionOut w of
        Inl e \<Rightarrow> (Some e, w)
      | Inr productionOut \<Rightarrow>
     (case getIn w of
        Inl e \<Rightarrow> (Some e, w)
      | Inr valueIn \<Rightarrow>
          if valueIn < productionIn then (None, w)
          else
            (let (r1, w1) = subtractIn w productionIn;
                 (r2, w2) = addOut w1 productionOut
             in case first_error [r1, r2] of
                  Some e \<Rightarrow> (Some e, w2)
                | None \<Rightarrow> (broadcastData w2, w2)))))"

section \<open>Live factory: visibility state\<close>

record visibilityState =
  ally :: bool
  visible :: bool
  inRange :: bool
  pinged :: bool

text \<open>
  \<open>Factory.prototype.getVisibilityState\<close>. The result object starts with four false
  flags and is called back unchanged for a \<open>null\<close> user or a missing factory model. The
  ally check and the range check run side by side and write different flags (both only
  ever set \<open>visible\<close> to true), so their order does not matter.
\<close>

definition getVisibilityState :: "world \<Rightarrow> factory \<Rightarrow> uref option \<Rightarrow> error + visibilityState" where
  "getVisibilityState w f liveUser =
     (let resultObject = \<lparr>ally = False, visible = False, inRange = False, pinged = False\<rparr>
      in case liveUser of
           None \<Rightarrow> Inr resultObject
         | Some u \<Rightarrow>
             if \<not> w_modelPresent w then Inr resultObject
             else
               on_success (getTeam w) (\<lambda>factoryTeam.
               on_success (fetch w (GetGameUser u) (w_hasGameUser w u)) (\<lambda>hasGameUser.
               on_success (if hasGameUser
                           then fetch w (GameUserGetTeam u) (w_gameUserTeam w u)
                           else Inr None) (\<lambda>userTeam.
               on_success (fetch w GetStage (w_stage w)) (\<lambda>gameStage.
               on_success (fetch w (GetUserState u) (w_userState w u)) (\<lambda>userState.
                 (let r1 = (if spectator userState \<or> gameStage \<ge> 2
                            then resultObject\<lparr>visible := True, inRange := False\<rparr>
                            else resultObject);
                      r2 = (if isInPingMemory f u
                            then r1\<lparr>visible := True, pinged := True\<rparr>
                            else r1);
                      r3 = (if player userState \<and> factoryTeam \<noteq> None \<and> userTeam \<noteq> None
                               \<and> factoryTeam = userTeam
                            then r2\<lparr>ally := True, visible := True\<rparr>
                            else r2)
                  in if (player userState \<or> special userState)
                        \<and> w_hasRecentLocation w u \<and> gameStage < 2
                     then
                       on_success (isUserInRange w f liveUser) (\<lambda>result.
                         Inr (if result
                              then r3\<lparr>inRange := result, visible := True\<rparr>
                              else r3\<lparr>inRange := result\<rparr>))
                     else Inr r3)))))))"

section \<open>Live factory: attack\<close>

text \<open>
  The three names an attack fetches for its notifications (of the factory, of the
  attacker and of the attacker's team): only whether a fetch fails matters here.
\<close>

definition fetchNames :: "world \<Rightarrow> uref \<Rightarrow> team \<Rightarrow> error option" where
  "fetchNames w user userTeam =
     first_error [w_fails w GetName, w_fails w (UserGetName user), w_fails w (TeamGetName userTeam)]"

text \<open>
  \<open>Factory.prototype.destroy\<close> deletes the document and unloads the live factory; when
  the deletion fails the factory stays.
\<close>

definition destroy :: "world \<Rightarrow> error option \<times> world" where
  "destroy w =
     (case w_fails w Delete of
        Some e \<Rightarrow> (Some e, w)
      | None \<Rightarrow> (None, w\<lparr>w_destroyed := True\<rparr>))"

text \<open>
  \<open>Factory.prototype.attack\<close>: the list of values the callback is called with, in
  order (\<open>None\<close> is \<open>callback(null)\<close>), and the world after. The packets sent to the
  players are left out: they do not touch the factory.

  \<^item> The factory's team, the attacker's team and the conquer value are fetched first;
    an error, a \<open>null\<close> attacker team or a conquer value that is not above zero is
    called back.
  \<^item> An attacker of the factory's own team is refused.
  \<^item> A factory of level one or lower is destroyed; the function given to \<open>destroy\<close>
    ignores its argument and does not call back.
  \<^item> Otherwise the five writes are started together, each done unless it fails;
    \<open>callback(null)\<close> follows the writes at once, and a name fetch that fails
    afterwards calls back again, since the flag \<open>calledBack\<close> is not set by the success
    path.
\<close>

definition attack :: "world \<Rightarrow> factory \<Rightarrow> uref \<Rightarrow> error option list \<times> world" where
  "attack w f user =
     (case getTeam w of
        Inl e \<Rightarrow> ([Some e], w)
      | Inr factoryTeam \<Rightarrow>
     (case fetch w (UserGetTeam user) (w_userTeam w user) of
        Inl e \<Rightarrow> ([Some e], w)
      | Inr None \<Rightarrow> ([Some UserHasNoTeam], w)
      | Inr (Some userTeam) \<Rightarrow>
     (case getConquer w f of
        Inl e \<Rightarrow> ([Some e], w)
      | Inr (result, userCount) \<Rightarrow>
          if result \<le> 0 then ([Some ConquerNotAboveZero], w)
          else if factoryTeam \<noteq> None \<and> factoryTeam = Some userTeam
          then ([Some AllyFactory], w)
          else
     (case getLevel w of
        Inl e \<Rightarrow> ([Some e], w)
      | Inr factoryLevel \<Rightarrow>
          if factoryLevel \<le> 1 then
            (case fetchNames w user userTeam of
               Some e \<Rightarrow> ([Some e], w)
             | None \<Rightarrow> ([], snd (destroy w)))
          else
     (case getIn w of
        Inl e \<Rightarrow> ([Some e], w)
      | Inr factoryIn \<Rightarrow>
     (case getOut w of
        Inl e \<Rightarrow> ([Some e], w)
      | Inr factoryOut \<Rightarrow>
     (case getDefence w of
        Inl e \<Rightarrow> ([Some e], w)
      | Inr factoryDefence \<Rightarrow>
     (case getConfig w of
        Inl e \<Rightarrow> ([Some e], w)
      | Inr gameConfig \<Rightarrow>
          (let newIn = c_attackNewIn (c_factory gameConfig) factoryIn;
               newOut = c_attackNewOut (c_factory gameConfig) factoryOut;
               newDefence = c_attackNewDefence (c_factory gameConfig) factoryDefence;
               (r1, w1) = write_model w SetTeam (\<lambda>m. m\<lparr>fm_team := Some userTeam\<rparr>);
               (r2, w2) = write_model w1 SetLevel (\<lambda>m. m\<lparr>fm_level := factoryLevel - 1\<rparr>);
               (r3, w3) = write_model w2 SetIn (\<lambda>m. m\<lparr>fm_in := newIn\<rparr>);
               (r4, w4) = write_model w3 SetOut (\<lambda>m. m\<lparr>fm_out := newOut\<rparr>);
               (r5, w5) = write_model w4 SetDefence (\<lambda>m. m\<lparr>fm_defence := newDefence\<rparr>)
           in case first_error [r1, r2, r3, r4, r5] of
                Some e \<Rightarrow> ([Some e], w5)
              | None \<Rightarrow>
                  (case fetchNames w5 user userTeam of
                     Some e \<Rightarrow> ([None, Some e], w5)
                   | None \<Rightarrow> ([None], w5)))))))))))"

section \<open>Live shop: range\<close>

text \<open>\<open>Shop.prototype.getRange\<close>.\<close>

definition shop_getRange :: "world \<Rightarrow> shop \<Rightarrow> uref option \<Rightarrow> error + rat" where
  "shop_getRange w s liveUser =
     on_success (getConfig w) (\<lambda>gameConfig.
       if (case liveUser of None \<Rightarrow> False | Some u \<Rightarrow> shop_isInRangeMemory s u)
       then Inr (c_activeRange (c_shop gameConfig))
       else Inr (c_range (c_shop gameConfig)))"

text \<open>
  A call that either calls back once or throws before it does.
\<close>

datatype 'a outcome = Callback "error + 'a" | Threw error

text \<open>
  \<open>Shop.prototype.isUserInRange\<close>. The function given to \<open>getRange\<close> computes the
  distance from \<open>self.getLocation()\<close>, but \<open>isUserInRange\<close> binds no \<open>self\<close> (unlike
  \<open>load\<close> and \<open>getRange\<close>, which start with \<open>const self = this\<close>) and neither does the
  module, so evaluating the identifier throws a \<open>ReferenceError\<close> before the callback
  is reached.
\<close>

definition shop_isUserInRange :: "world \<Rightarrow> shop \<Rightarrow> uref option \<Rightarrow> bool outcome" where
  "shop_isUserInRange w s liveUser =
     (case liveUser of
        None \<Rightarrow> Callback (Inr False)
      | Some u \<Rightarrow>
          if w_userId w (s_user s) = w_userId w u then Callback (Inr True)
          else if \<not> w_hasRecentLocation w u then Callback (Inr False)
          else
            (case shop_getRange w s liveUser of
               Inl e \<Rightarrow> Callback (Inl e)
             | Inr shopRange \<Rightarrow> Threw SelfNotDefined))"

section \<open>Live shop: loading and the scheduled handover\<close>

text \<open>
  \<open>setTimeout(f, delay)\<close> is modelled by what it requests: the task and the delay in
  milliseconds. The two functions \<open>load\<close> schedules close over the alert time and the
  configuration read at loading; the preparation task carries the alert time and the
  worker interval with it.
\<close>

datatype task = PrepareTransfer int int | Transfer

datatype notice =
    DealerGivenAwaySoon  \<comment> \<open>'Your dealer ability will be given to another player soon...'\<close>
  | LoseDealerSoon  \<comment> \<open>'You will lose your dealer ability soon...'\<close>
  | NoLongerDealer  \<comment> \<open>'You\'re no longer a dealer'\<close>

datatype effect =
    SetTimeout task int
  | ScheduleUser uref
  | SendMessage notice uref
  | SendGameData uref

text \<open>
  \<open>Shop.prototype.load\<close>: the value called back, the shop after, and the timers set.
  The token and the configuration are fetched side by side: when one fails the other
  still takes effect, and the first error is called back.
\<close>

definition load :: "world \<Rightarrow> shop \<Rightarrow> error option \<times> shop \<times> effect list" where
  "load w s =
     (let tokenResult = fetch w GenerateToken (w_newToken w);
          s1 = (case tokenResult of Inl e \<Rightarrow> s | Inr token \<Rightarrow> s\<lparr>s_token := Some token\<rparr>);
          configResult = getConfig w
      in case configResult of
           Inl e \<Rightarrow>
             (first_error [case tokenResult of Inl e' \<Rightarrow> Some e' | Inr _ \<Rightarrow> None, Some e], s1, [])
         | Inr gameConfig \<Rightarrow>
             (let lifeTime = c_getShopLifetime (c_shop gameConfig);
                  alertTime = min (c_shopAlertTime (c_shop gameConfig)) lifeTime
              in (case tokenResult of Inl e' \<Rightarrow> Some e' | Inr _ \<Rightarrow> None,
                  s1\<lparr>s_inSellPrice := Some (c_getInSellPrice (c_shop gameConfig)),
                     s_outBuyPrice := Some (c_getOutBuyPrice (c_shop gameConfig)),
                     s_range := Some (c_range (c_shop gameConfig))\<rparr>,
                  [SetTimeout (PrepareTransfer alertTime (c_workerInterval (c_shop gameConfig)))
                     (lifeTime - alertTime)])))"

text \<open>
  \<open>functionPrepareTransfer\<close>, with the alert time and the worker interval of its
  closure. It gives up when the owner has no team model or a lookup fails.
\<close>

definition functionPrepareTransfer :: "world \<Rightarrow> shop \<Rightarrow> int \<Rightarrow> int \<Rightarrow> effect list" where
  "functionPrepareTransfer w s alertTime workerInterval =
     (case w_teamModel w (s_user s) of
        None \<Rightarrow> []
      | Some teamModel \<Rightarrow>
          (case fetch w FindNewShopUser (w_newShopUser w teamModel) of
             Inl e \<Rightarrow> []
           | Inr newUser \<Rightarrow>
               (case fetch w GetTeamPreferredShopCountDelta (w_shopCountDelta w teamModel) of
                  Inl e \<Rightarrow> []
                | Inr delta \<Rightarrow>
                    if newUser = None \<and> delta \<ge> 0
                    then [SetTimeout (PrepareTransfer alertTime workerInterval) workerInterval]
                    else
                      (case newUser of None \<Rightarrow> [] | Some u \<Rightarrow> [ScheduleUser u])
                      @ [SetTimeout Transfer alertTime,
                         SendMessage (if newUser = None then LoseDealerSoon
                                      else DealerGivenAwaySoon) (s_user s)])))"

text \<open>
  \<open>functionTransfer\<close>, on the shop manager's list \<open>shops\<close>: the shop is looked up by
  identity and one element is spliced out at the index found.
\<close>

definition functionTransfer :: "shop list \<Rightarrow> shop \<Rightarrow> shop list \<times> effect list" where
  "functionTransfer shops s =
     (splice1 shops (indexOf (map s_ref shops) (s_ref s)),
      [SendMessage NoLongerDealer (s_user s), SendGameData (s_user s)])"

section \<open>Packets and JavaScript values\<close>

text \<open>
  The values a packet field can hold. A number is modelled by an integer: the amounts
  of goods and money of the game are integral, and doubles are exact on integers below
  \<open>2^53\<close> in magnitude. \<open>NaN\<close> is \<open>None\<close> in the type \<open>int option\<close> of computed numbers.
\<close>

datatype jsval = JUndefined | JNull | JBool bool | JNum int | JStr string

type_synonym number = "int option"

definition truthy :: "jsval \<Rightarrow> bool" where
  "truthy v =
     (case v of JUndefined \<Rightarrow> False | JNull \<Rightarrow> False | JBool b \<Rightarrow> b
      | JNum n \<Rightarrow> n \<noteq> 0 | JStr s \<Rightarrow> s \<noteq> [])"

text \<open>
  \<open>parseInt(string)\<close> without a radix: leading white space is dropped, a sign is read,
  a prefix \<open>0x\<close> or \<open>0X\<close> selects radix 16, and the longest prefix of digits is the
  value; without a digit the result is \<open>NaN\<close>.
\<close>

definition isWhiteSpace :: "char \<Rightarrow> bool" where
  "isWhiteSpace c = (of_char c \<in> {9, 10, 11, 12, 13, 32 :: nat})"

definition digitValue :: "char \<Rightarrow> nat option" where
  "digitValue c =
     (let n = (of_char c :: nat)
      in if 48 \<le> n \<and> n \<le> 57 then Some (n - 48)
         else if 97 \<le> n \<and> n \<le> 122 then Some (n - 87)
         else if 65 \<le> n \<and> n \<le> 90 then Some (n - 55)
         else None)"

definition isDigit :: "nat \<Rightarrow> char \<Rightarrow> bool" where
  "isDigit radix c = (case digitValue c of None \<Rightarrow> False | Some d \<Rightarrow> d < radix)"

definition digitsValue :: "nat \<Rightarrow> string \<Rightarrow> int" where
  "digitsValue radix ds =
     foldl (\<lambda>acc c. acc * int radix + int (case digitValue c of None \<Rightarrow> 0 | Some d \<Rightarrow> d)) 0 ds"

definition parseIntString :: "string \<Rightarrow> number" where
  "parseIntString str =
     (let s0 = dropWhile isWhiteSpace str;
          negative = (case s0 of c # _ \<Rightarrow> c = CHR ''-'' | [] \<Rightarrow> False);
          s1 = (case s0 of c # cs \<Rightarrow> if c = CHR ''+'' \<or> c = CHR ''-'' then cs else s0 | [] \<Rightarrow> s0);
          hex = (case s1 of a # b # _ \<Rightarrow> a = CHR ''0'' \<and> (b = CHR ''x'' \<or> b = CHR ''X'') | _ \<Rightarrow> False);
          radix = (if hex then 16 else 10);
          s2 = (if hex then drop 2 s1 else s1);
          z = takeWhile (isDigit radix) s2
      in if z = [] then None
         else Some ((if negative then - 1 else 1) * digitsValue radix z))"

text \<open>
  \<open>parseInt\<close> first turns its argument into a string: \<open>undefined\<close>, \<open>null\<close> and the
  booleans give strings without a digit, an integer gives its decimal digits.
\<close>

definition parseInt :: "jsval \<Rightarrow> number" where
  "parseInt v =
     (case v of JUndefined \<Rightarrow> None | JNull \<Rightarrow> None | JBool b \<Rightarrow> None
      | JNum n \<Rightarrow> Some n | JStr s \<Rightarrow> parseIntString s)"

text \<open>Comparisons with \<open>NaN\<close> are false; arithmetic on \<open>NaN\<close> gives \<open>NaN\<close>.\<close>

definition js_gt :: "number \<Rightarrow> number \<Rightarrow> bool" where
  "js_gt a b = (case (a, b) of (Some x, Some y) \<Rightarrow> x > y | _ \<Rightarrow> False)"

definition js_lt :: "number \<Rightarrow> number \<Rightarrow> bool" where
  "js_lt a b = (case (a, b) of (Some x, Some y) \<Rightarrow> x < y | _ \<Rightarrow> False)"

definition js_sub :: "number \<Rightarrow> number \<Rightarrow> number" where
  "js_sub a b = (case (a, b) of (Some x, Some y) \<Rightarrow> Some (x - y) | _ \<Rightarrow> None)"

definition js_add :: "number \<Rightarrow> number \<Rightarrow> number" where
  "js_add a b = (case (a, b) of (Some x, Some y) \<Rightarrow> Some (x + y) | _ \<Rightarrow> None)"

text \<open>
  \<open>Math.round(outAmount * price)\<close>: the nearest integer, a half rounded up. The price
  is a rational number.
\<close>

definition roundedProduct :: "number \<Rightarrow> rat \<Rightarrow> number" where
  "roundedProduct a price =
     (case a of None \<Rightarrow> None | Some n \<Rightarrow> Some \<lfloor>of_int n * price + 1 / 2\<rfloor>)"

text \<open>
  A packet: each field is absent (\<open>hasOwnProperty\<close> is false and reading it gives
  \<open>undefined\<close>) or holds a value.
\<close>

record packet =
  p_shop :: "jsval option"
  p_amount :: "jsval option"
  p_outAmount :: "jsval option"
  p_all :: "jsval option"

definition field :: "jsval option \<Rightarrow> jsval" where
  "field v = (case v of None \<Rightarrow> JUndefined | Some x \<Rightarrow> x)"

text \<open>The socket's session, when there is one: the \<open>valid\<close> property and the user.\<close>

record session =
  ss_valid :: "jsval option"
  ss_user :: nat

type_synonym socket = "session option"

section \<open>The shop buy-out handler\<close>

text \<open>
  A live game as the handler meets it for the user of the session: the shops of its
  shop manager, the world of the game, the live user \<open>liveGame.getUser(user)\<close> finds
  (or \<open>null\<close>), and the user's game user with its balances of out goods and money.
  \<open>g_price\<close> is what \<open>liveShop.getOutBuyPriceForGameUser\<close> calls back; the method is
  outside the sources at hand.
\<close>

record liveGame =
  g_shops :: "shop list"
  g_world :: world
  g_liveUser :: "uref option"
  g_price :: rat
  g_out :: number
  g_money :: number

datatype response =
    ServerError  \<comment> \<open>'Failed to sell goods, a server error occurred.'\<close>
  | NotAuthenticated  \<comment> \<open>'Transaction failed, you\'re not authenticated.'\<close>
  | NotThisMuch  \<comment> \<open>'Failed to sell, you don\'t have this much goods available.'\<close>
  | SellNothing  \<comment> \<open>'You can\'t sell no nothin\'.'\<close>
  | ShopNotFound  \<comment> \<open>'The transaction failed, couldn\'t find shop. ...'\<close>
  | Sold number number  \<comment> \<open>'Sold ... for ...', with the goods and the money\<close>

text \<open>The \<open>error\<close> property of the message sent.\<close>

fun isError :: "response \<Rightarrow> bool" where
  "isError (Sold a m) = False"
| "isError r = True"

text \<open>
  Modelled from the spec: \<open>GameUserModel.subtractOut\<close> and \<open>addMoney\<close> are outside the
  sources at hand. A write either calls back an error and leaves the balance as it is,
  or subtracts from the out balance, respectively adds to the money balance.
\<close>

definition subtractOut :: "liveGame \<Rightarrow> number \<Rightarrow> error option \<times> liveGame" where
  "subtractOut g amount =
     (case w_fails (g_world g) GameUserSubtractOut of
        Some e \<Rightarrow> (Some e, g)
      | None \<Rightarrow> (None, g\<lparr>g_out := js_sub (g_out g) amount\<rparr>))"

definition addMoney :: "liveGame \<Rightarrow> number \<Rightarrow> error option \<times> liveGame" where
  "addMoney g amount =
     (case w_fails (g_world g) GameUserAddMoney of
        Some e \<Rightarrow> (Some e, g)
      | None \<Rightarrow> (None, g\<lparr>g_money := js_add (g_money g) amount\<rparr>))"

text \<open>
  The result of handling a packet: the messages sent to the socket, the exception that
  ended the handling if one was thrown, and the games after.
\<close>

record handled =
  sent :: "response list"
  thrown :: "error option"
  games :: "liveGame list"

text \<open>
  The chain of callbacks run for the shop found, in its game. \<open>callbackError\<close> logs
  the error it is given and sends the server error message; each path calls it at most
  once. An exception thrown by the shop's range check ends the chain.
\<close>

definition buyOut :: "liveGame \<Rightarrow> shop \<Rightarrow> jsval \<Rightarrow> jsval \<Rightarrow> response list \<times> error option \<times> liveGame" where
  "buyOut g liveShop rawOutAmount rawAll =
     (case fetch (g_world g) GetGameUserModel () of
        Inl e \<Rightarrow> ([ServerError], None, g)
      | Inr gameUser \<Rightarrow>
     (case fetch (g_world g) GameGetUser (g_liveUser g) of
        Inl e \<Rightarrow> ([ServerError], None, g)
      | Inr None \<Rightarrow> ([ServerError], None, g)
      | Inr (Some liveUser) \<Rightarrow>
     (case shop_isUserInRange (g_world g) liveShop (Some liveUser) of
        Threw e \<Rightarrow> ([], Some e, g)
      | Callback (Inl e) \<Rightarrow> ([ServerError], None, g)
      | Callback (Inr False) \<Rightarrow> ([ServerError], None, g)
      | Callback (Inr True) \<Rightarrow>
     (case fetch (g_world g) GetOutBuyPriceForGameUser (g_price g) of
        Inl e \<Rightarrow> ([ServerError], None, g)
      | Inr price \<Rightarrow>
     (case fetch (g_world g) GameUserGetOut (g_out g) of
        Inl e \<Rightarrow> ([ServerError], None, g)
      | Inr outCurrent \<Rightarrow>
     (case fetch (g_world g) GameUserGetMoney (g_money g) of
        Inl e \<Rightarrow> ([ServerError], None, g)
      | Inr moneyCurrent \<Rightarrow>
          (let outAmount = (if rawAll = JBool True then outCurrent else parseInt rawOutAmount)
           in if js_gt outAmount outCurrent then ([NotThisMuch], None, g)
              else if js_lt outAmount (Some 0) then ([ServerError], None, g)
              else if outAmount = Some 0 then ([SellNothing], None, g)
              else
                (case subtractOut g outAmount of
                   (Some e, g1) \<Rightarrow> ([ServerError], None, g1)
                 | (None, g1) \<Rightarrow>
                     (let moneyAmount = roundedProduct outAmount price
                      in case addMoney g1 moneyAmount of
                           (Some e, g2) \<Rightarrow> ([ServerError], None, g2)
                         | (None, g2) \<Rightarrow>
                             (case w_fails (g_world g) GetBalanceTable of
                                Some e \<Rightarrow> ([], None, g2)
                              | None \<Rightarrow> ([Sold outAmount moneyAmount], None, g2)))))))))))"

text \<open>
  The token of a shop is compared with the raw field by \<open>!==\<close>: a string token equals
  the same string only, and the \<open>null\<close> token of a shop that is not loaded equals
  \<open>null\<close> only.
\<close>

definition isShopToken :: "shop \<Rightarrow> jsval \<Rightarrow> bool" where
  "isShopToken liveShop rawShop =
     (case s_token liveShop of None \<Rightarrow> rawShop = JNull | Some t \<Rightarrow> rawShop = JStr t)"

text \<open>
  The two nested \<open>forEach\<close> loops with the flag \<open>foundShop\<close>: the first shop with the
  token, in the order of the games and of their shops, and the index of its game.
\<close>

fun findShop :: "liveGame list \<Rightarrow> jsval \<Rightarrow> (nat \<times> shop) option" where
  "findShop [] rawShop = None"
| "findShop (liveGame # rest) rawShop =
     (case find (\<lambda>liveShop. isShopToken liveShop rawShop) (g_shops liveGame) of
        Some liveShop \<Rightarrow> Some (0, liveShop)
      | None \<Rightarrow> map_option (\<lambda>(i, liveShop). (Suc i, liveShop)) (findShop rest rawShop))"

text \<open>\<open>ShopBuyOutHandler.prototype.handler\<close>.\<close>

definition handler :: "liveGame list \<Rightarrow> packet \<Rightarrow> socket \<Rightarrow> handled" where
  "handler gs packet socket =
     (if p_shop packet = None \<or> (p_amount packet = None \<and> p_all packet = None)
      then \<lparr>sent = [ServerError], thrown = None, games = gs\<rparr>
      else
        (let rawShop = field (p_shop packet);
             rawOutAmount = field (p_outAmount packet);
             rawAll = field (p_all packet)
         in if (case socket of
                  None \<Rightarrow> True
                | Some ss \<Rightarrow> ss_valid ss = None \<or> \<not> truthy (field (ss_valid ss)))
            then \<lparr>sent = [NotAuthenticated], thrown = None, games = gs\<rparr>
            else
              (case findShop gs rawShop of
                 None \<Rightarrow> \<lparr>sent = [ShopNotFound], thrown = None, games = gs\<rparr>
               | Some (i, liveShop) \<Rightarrow>
                   (case buyOut (gs ! i) liveShop rawOutAmount rawAll of
                      (msgs, exn, g') \<Rightarrow>
                        \<lparr>sent = msgs, thrown = exn, games = gs[i := g']\<rparr>))))"

section \<open>A concrete game\<close>

text \<open>
  A small world used to run the definitions: a factory of team 1 at level 3, user 1 an
  ally and user 2 an enemy, user 3 without a recent location and user 4 without a
  strength. Nothing fails.
\<close>

definition example_config :: gameConfig where
  "example_config =
     \<lparr>c_factory =
        \<lparr>c_getProductionIn = (\<lambda>level. 2 * level),
         c_getProductionOut = (\<lambda>level. 3 * level),
         c_getRange = (\<lambda>level. 10),
         c_getActiveRange = (\<lambda>level. 15),
         c_attackNewIn = (\<lambda>v. v div 2),
         c_attackNewOut = (\<lambda>v. v div 2),
         c_attackNewDefence = (\<lambda>v. 0)\<rparr>,
      c_shop =
        \<lparr>c_range = 20, c_activeRange = 25, c_shopAlertTime = 30, c_workerInterval = 5,
         c_getShopLifetime = 100, c_getInSellPrice = 3 / 2, c_getOutBuyPrice = 5 / 2\<rparr>\<rparr>"

definition example_world :: world where
  "example_world =
     \<lparr>w_fails = (\<lambda>c. None),
      w_config = example_config,
      w_model = \<lparr>fm_team = Some 1, fm_level = 3, fm_defence = 4, fm_in = 10, fm_out = 0,
                 fm_location = (0, 0)\<rparr>,
      w_modelPresent = True,
      w_destroyed = False,
      w_stage = 1,
      w_userState = (\<lambda>u. \<lparr>player = True, special = False, spectator = False\<rparr>),
      w_hasGameUser = (\<lambda>u. True),
      w_gameUserTeam = (\<lambda>u. if u = 1 then Some 1 else Some 2),
      w_hasRecentLocation = (\<lambda>u. u \<noteq> 3),
      w_userLocation = (\<lambda>u. (int u, 0)),
      w_userId = (\<lambda>u. u),
      w_userTeam = (\<lambda>u. if u = 1 then Some 1 else Some 2),
      w_isTeam = (\<lambda>u t. t = (if u = 1 then Some 1 else Some 2)),
      w_strength = (\<lambda>u. if u = 4 then None else Some (10 * int u)),
      w_isInRange = (\<lambda>a b r. of_int (\<bar>fst a - fst b\<bar> + \<bar>snd a - snd b\<bar>) \<le> r),
      w_newToken = ''tok'',
      w_teamModel = (\<lambda>u. if u = 1 then Some 1 else Some 2),
      w_newShopUser = (\<lambda>t. if t = 1 then Some 5 else None),
      w_shopCountDelta = (\<lambda>t. 0)\<rparr>"

definition example_factory :: factory where
  "example_factory =
     \<lparr>f_id = 7, userVisibleMem = [1, 2], userRangeMem = [1, 2, 3, 4], userPingMem = [2]\<rparr>"

definition example_shop :: shop where
  "example_shop =
     \<lparr>s_ref = 0, s_token = Some ''tok'', s_user = 1, s_inSellPrice = Some (3 / 2),
      s_outBuyPrice = Some (5 / 2), s_range = Some 20, s_userRangeMem = [2]\<rparr>"

definition example_world_level_one :: world where
  "example_world_level_one = example_world\<lparr>w_model := (w_model example_world)\<lparr>fm_level := 1\<rparr>\<rparr>"

text \<open>
  The shop of user 1 in a game of the concrete world, for a session of the user whose
  live user is 2: ten out goods, no money, and a price of 5/2 per unit.
\<close>

definition example_game :: liveGame where
  "example_game =
     \<lparr>g_shops = [example_shop], g_world = example_world, g_liveUser = Some 2,
      g_price = 5 / 2, g_out = Some 10, g_money = Some 0\<rparr>"

definition example_socket :: socket where
  "example_socket = Some \<lparr>ss_valid = Some (JBool True), ss_user = 2\<rparr>"

definition example_packet :: "jsval \<Rightarrow> packet" where
  "example_packet amount =
     \<lparr>p_shop = Some (JStr ''tok''), p_amount = None, p_outAmount = Some amount,
      p_all = Some (JBool False)\<rparr>"
section \<open>Array lemmas\<close>

lemma indexOf_ge_minus1: "- 1 \<le> indexOf xs x"
  by (induction xs) (auto simp: Let_def)

lemma indexOf_nonneg_iff: "(0 \<le> indexOf xs x) = (x \<in> set xs)"
  by (induction xs) (auto simp: Let_def)

lemma indexOf_less_length: "x \<in> set xs \<Longrightarrow> indexOf xs x < int (length xs)"
  by (induction xs) (auto simp: Let_def indexOf_nonneg_iff)

lemma take_drop_indexOf:
  "x \<in> set xs \<Longrightarrow>
     take (nat (indexOf xs x)) xs @ drop (Suc (nat (indexOf xs x))) xs = remove1 x xs"
proof (induction xs)
  case Nil
  then show ?case by simp
next
  case (Cons y ys)
  show ?case
  proof (cases "y = x")
    case True
    then show ?thesis by simp
  next
    case False
    with Cons.prems have mem: "x \<in> set ys" by simp
    then have nn: "0 \<le> indexOf ys x" by (simp add: indexOf_nonneg_iff)
    then have "nat (indexOf ys x + 1) = Suc (nat (indexOf ys x))" by simp
    with False nn Cons.IH [OF mem] show ?thesis by (simp add: Let_def)
  qed
qed

lemma splice1_indexOf: "x \<in> set xs \<Longrightarrow> splice1 xs (indexOf xs x) = remove1 x xs"
proof -
  assume mem: "x \<in> set xs"
  then have nn: "0 \<le> indexOf xs x" by (simp add: indexOf_nonneg_iff)
  from mem have lt: "indexOf xs x < int (length xs)" by (rule indexOf_less_length)
  from nn lt have "min (indexOf xs x) (int (length xs)) = indexOf xs x" by simp
  with nn take_drop_indexOf [OF mem] show ?thesis
    by (simp add: splice1_def Let_def)
qed

lemma distinct_push: "distinct xs \<Longrightarrow> x \<notin> set xs \<Longrightarrow> distinct (push xs x)"
  by (simp add: push_def)

lemma distinct_splice1_indexOf:
  "distinct xs \<Longrightarrow> x \<in> set xs \<Longrightarrow>
     distinct (splice1 xs (indexOf xs x)) \<and> x \<notin> set (splice1 xs (indexOf xs x))"
  by (simp add: splice1_indexOf)


section \<open>The memory operations\<close>

lemma setInVisibilityMemory_changed:
  "fst (setInVisibilityMemory f u b) = (isInVisibilityMemory f u \<noteq> b)"
  by (auto simp: setInVisibilityMemory_def Let_def)

lemma setInVisibilityMemory_after:
  assumes "distinct (userVisibleMem f)"
  shows "isInVisibilityMemory (snd (setInVisibilityMemory f u b)) u = b"
    and "distinct (userVisibleMem (snd (setInVisibilityMemory f u b)))"
    and "userRangeMem (snd (setInVisibilityMemory f u b)) = userRangeMem f"
    and "userPingMem (snd (setInVisibilityMemory f u b)) = userPingMem f"
  using assms
  by (auto simp: setInVisibilityMemory_def isInVisibilityMemory_def Let_def
      indexOf_nonneg_iff push_def splice1_indexOf)

lemma setInRangeMemory_changed:
  "fst (setInRangeMemory f u b) = (isInRangeMemory f u \<noteq> b)"
  by (auto simp: setInRangeMemory_def Let_def)

lemma setInRangeMemory_after:
  assumes "distinct (userRangeMem f)"
  shows "isInRangeMemory (snd (setInRangeMemory f u b)) u = b"
    and "distinct (userRangeMem (snd (setInRangeMemory f u b)))"
    and "userVisibleMem (snd (setInRangeMemory f u b)) = userVisibleMem f"
    and "userPingMem (snd (setInRangeMemory f u b)) = userPingMem f"
  using assms
  by (auto simp: setInRangeMemory_def isInRangeMemory_def Let_def
      indexOf_nonneg_iff push_def splice1_indexOf)

lemma setInPingMemory_changed:
  "fst (fst (setInPingMemory iv f u b s)) = (isInPingMemory f u \<noteq> b)"
  by (auto simp: setInPingMemory_def Let_def)

lemma setInPingMemory_after:
  assumes "distinct (userPingMem f)"
  shows "isInPingMemory (snd (fst (setInPingMemory iv f u b s))) u = b"
    and "distinct (userPingMem (snd (fst (setInPingMemory iv f u b s))))"
    and "userVisibleMem (snd (fst (setInPingMemory iv f u b s))) = userVisibleMem f"
    and "userRangeMem (snd (fst (setInPingMemory iv f u b s))) = userRangeMem f"
  using assms
  by (auto simp: setInPingMemory_def isInPingMemory_def Let_def
      indexOf_nonneg_iff push_def splice1_indexOf)

lemma shop_setInRangeMemory_changed:
  "fst (shop_setInRangeMemory s u b) = (shop_isInRangeMemory s u \<noteq> b)"
  by (auto simp: shop_setInRangeMemory_def Let_def)

lemma shop_setInRangeMemory_after:
  assumes "distinct (s_userRangeMem s)"
  shows "shop_isInRangeMemory (snd (shop_setInRangeMemory s u b)) u = b"
    and "distinct (s_userRangeMem (snd (shop_setInRangeMemory s u b)))"
  using assms
  by (auto simp: shop_setInRangeMemory_def shop_isInRangeMemory_def Let_def
      indexOf_nonneg_iff push_def splice1_indexOf)

lemma call_factory_distinct:
  assumes "distinct (userVisibleMem f)" "distinct (userRangeMem f)" "distinct (userPingMem f)"
  shows "distinct (userVisibleMem (call_factory iv c f)) \<and>
         distinct (userRangeMem (call_factory iv c f)) \<and>
         distinct (userPingMem (call_factory iv c f))"
  using assms
  by (cases c)
     (simp_all add: setInVisibilityMemory_after setInRangeMemory_after setInPingMemory_after)

lemma fold_call_factory_distinct:
  "distinct (userVisibleMem f) \<Longrightarrow> distinct (userRangeMem f) \<Longrightarrow> distinct (userPingMem f) \<Longrightarrow>
     distinct (userVisibleMem (fold (call_factory iv) cs f)) \<and>
     distinct (userRangeMem (fold (call_factory iv) cs f)) \<and>
     distinct (userPingMem (fold (call_factory iv) cs f))"
proof (induction cs arbitrary: f)
  case Nil
  then show ?case by simp
next
  case (Cons c cs)
  from call_factory_distinct [OF Cons.prems, of iv c]
  show ?case using Cons.IH [of "call_factory iv c f"] by simp
qed

lemma factory_after_distinct:
  "distinct (userVisibleMem (factory_after iv i cs)) \<and>
   distinct (userRangeMem (factory_after iv i cs)) \<and>
   distinct (userPingMem (factory_after iv i cs))"
  unfolding factory_after_def
  by (rule fold_call_factory_distinct) (simp_all add: Factory_def)

lemma fold_shop_distinct:
  "distinct (s_userRangeMem s) \<Longrightarrow>
     distinct (s_userRangeMem (fold (\<lambda>(u, b) s. snd (shop_setInRangeMemory s u b)) cs s))"
proof (induction cs arbitrary: s)
  case Nil
  then show ?case by simp
next
  case (Cons c cs)
  obtain u b where c: "c = (u, b)" by (cases c)
  from Cons.prems have "distinct (s_userRangeMem (snd (shop_setInRangeMemory s u b)))"
    by (rule shop_setInRangeMemory_after)
  from Cons.IH [OF this] show ?case by (simp add: c)
qed

lemma shop_after_distinct: "distinct (s_userRangeMem (shop_after ref owner cs))"
  unfolding shop_after_def
  by (rule fold_shop_distinct) (simp add: Shop_def)

text \<open>
  Claim C5. After any history of memory calls on a freshly constructed factory
  \<open>f\<close> and shop \<open>s\<close>: each of \<open>setInVisibilityMemory\<close>, \<open>setInRangeMemory\<close>,
  \<open>setInPingMemory\<close> and the shop's \<open>setInRangeMemory\<close> returns true exactly when the
  stored membership of the user differs from the requested flag, the user's membership
  after the call equals the flag, and no live user occurs twice in any of the four
  memory arrays.
\<close>

theorem memory_set_operations:
  "(let f = factory_after iv i calls; s = shop_after ref owner scalls in
      fst (setInVisibilityMemory f u b) = (isInVisibilityMemory f u \<noteq> b)
    \<and> isInVisibilityMemory (snd (setInVisibilityMemory f u b)) u = b
    \<and> fst (setInRangeMemory f u b) = (isInRangeMemory f u \<noteq> b)
    \<and> isInRangeMemory (snd (setInRangeMemory f u b)) u = b
    \<and> fst (fst (setInPingMemory iv f u b send)) = (isInPingMemory f u \<noteq> b)
    \<and> isInPingMemory (snd (fst (setInPingMemory iv f u b send))) u = b
    \<and> fst (shop_setInRangeMemory s u b) = (shop_isInRangeMemory s u \<noteq> b)
    \<and> shop_isInRangeMemory (snd (shop_setInRangeMemory s u b)) u = b
    \<and> distinct (userVisibleMem f) \<and> distinct (userRangeMem f)
    \<and> distinct (userPingMem f) \<and> distinct (s_userRangeMem s))"
proof -
  have d: "distinct (userVisibleMem (factory_after iv i calls))"
          "distinct (userRangeMem (factory_after iv i calls))"
          "distinct (userPingMem (factory_after iv i calls))"
    using factory_after_distinct [of iv i calls] by simp_all
  have ds: "distinct (s_userRangeMem (shop_after ref owner scalls))"
    by (rule shop_after_distinct)
  show ?thesis
    unfolding Let_def
    using d ds
    by (simp add: setInVisibilityMemory_changed setInRangeMemory_changed
        setInPingMemory_changed shop_setInRangeMemory_changed
        setInVisibilityMemory_after setInRangeMemory_after
        setInPingMemory_after shop_setInRangeMemory_after)
qed

section \<open>Ranges\<close>

lemma fetch_ok: "w_fails w c = None \<Longrightarrow> fetch w c v = Inr v"
  by (simp add: fetch_def)

lemma fetch_fail: "w_fails w c = Some e \<Longrightarrow> fetch w c v = Inl e"
  by (simp add: fetch_def)

lemma on_success_Inr: "on_success (Inr v) k = k v"
  by (simp add: on_success_def)

lemma on_success_Inl: "on_success (Inl e) k = Inl e"
  by (simp add: on_success_def)

text \<open>
  Claim C8. When the configuration and the level are fetched without error,
  \<open>getRange\<close> of a factory calls back the configured active range (at the factory's
  level) for a live user in the factory's range memory and the configured global range
  for any other user, also for \<open>undefined\<close>; \<open>getRange\<close> of a shop does the same with
  the shop's \<open>activeRange\<close> and \<open>range\<close>.
\<close>

theorem getRange_active_or_global:
  assumes "w_fails w GetConfig = None"
  shows "(w_fails w GetLevel = None \<longrightarrow>
            getRange w f (Some u) =
              Inr (if isInRangeMemory f u
                   then c_getActiveRange (c_factory (w_config w)) (fm_level (w_model w))
                   else c_getRange (c_factory (w_config w)) (fm_level (w_model w)))
          \<and> getRange w f None = Inr (c_getRange (c_factory (w_config w)) (fm_level (w_model w))))
       \<and> shop_getRange w s (Some u) =
            Inr (if shop_isInRangeMemory s u
                 then c_activeRange (c_shop (w_config w))
                 else c_range (c_shop (w_config w)))
       \<and> shop_getRange w s None = Inr (c_range (c_shop (w_config w)))"
  using assms
  by (simp add: getRange_def shop_getRange_def getConfig_def getLevel_def
      fetch_ok on_success_Inr)

theorem getRange_active_or_global_witness:
  "w_fails example_world GetConfig = None \<and> w_fails example_world GetLevel = None
   \<and> getRange example_world example_factory (Some 2) = Inr 15
   \<and> getRange example_world example_factory (Some 9) = Inr 10
   \<and> shop_getRange example_world example_shop (Some 2) = Inr 25
   \<and> shop_getRange example_world example_shop (Some 1) = Inr 20"
  using getRange_active_or_global [of example_world example_factory 2 example_shop]
        getRange_active_or_global [of example_world example_factory 9 example_shop]
        getRange_active_or_global [of example_world example_factory 1 example_shop]
  by (simp add: example_world_def example_config_def example_factory_def example_shop_def
      isInRangeMemory_def shop_isInRangeMemory_def)

section \<open>Conquer value\<close>

lemma conquerUsers_sum:
  assumes "\<forall>u \<in> set us. w_fails w (UserIsTeam u) = None \<and> w_fails w (UserGetStrength u) = None"
  shows "conquerUsers w t us (cv, n) =
           Inr (cv + (\<Sum>u \<leftarrow> filter (w_hasRecentLocation w) us.
                        case w_strength w u of
                          None \<Rightarrow> 0
                        | Some s \<Rightarrow> if w_isTeam w u t then - s else s),
                n + length (filter (\<lambda>u. w_hasRecentLocation w u \<and> w_strength w u \<noteq> None) us))"
  using assms
proof (induction us arbitrary: cv n)
  case Nil
  then show ?case by simp
next
  case (Cons u us)
  then have ok: "w_fails w (UserIsTeam u) = None" "w_fails w (UserGetStrength u) = None"
    and rest: "\<forall>u \<in> set us. w_fails w (UserIsTeam u) = None \<and> w_fails w (UserGetStrength u) = None"
    by simp_all
  show ?case
  proof (cases "w_hasRecentLocation w u")
    case False
    with Cons.IH [OF rest] show ?thesis by simp
  next
    case True
    show ?thesis
    proof (cases "w_strength w u")
      case None
      with True ok Cons.IH [OF rest] show ?thesis by (simp add: fetch_ok)
    next
      case (Some s)
      with True ok Cons.IH [OF rest] show ?thesis by (simp add: fetch_ok)
    qed
  qed
qed

text \<open>
  Claim C1. When the defence, the team and, for every user in the in-range memory, the
  alliance and the strength are fetched without error, \<open>getConquer\<close> calls back as
  conquer value the sum, over the users of the in-range memory that have a recent
  location, of the user's strength, negative when the user is on the factory's team and
  positive otherwise (a \<open>null\<close> strength adds nothing), minus the defence; and as user
  count the number of users with a recent location and a strength, those that
  contributed to the sum.
\<close>

theorem getConquer_signed_sum:
  assumes "w_fails w GetDefence = None" and "w_fails w GetTeam = None"
    and "\<forall>u \<in> set (userRangeMem f).
           w_fails w (UserIsTeam u) = None \<and> w_fails w (UserGetStrength u) = None"
  shows "getConquer w f =
           Inr ((\<Sum>u \<leftarrow> filter (w_hasRecentLocation w) (userRangeMem f).
                   case w_strength w u of
                     None \<Rightarrow> 0
                   | Some s \<Rightarrow> if w_isTeam w u (fm_team (w_model w)) then - s else s)
                - fm_defence (w_model w),
                length (filter (\<lambda>u. w_hasRecentLocation w u \<and> w_strength w u \<noteq> None)
                          (userRangeMem f)))"
  using assms(1,2) conquerUsers_sum [OF assms(3)]
  by (simp add: getConquer_def getDefence_def getTeam_def fetch_ok on_success_Inr)

theorem getConquer_signed_sum_witness:
  "w_fails example_world GetDefence = None \<and> w_fails example_world GetTeam = None
   \<and> (\<forall>u. w_fails example_world (UserIsTeam u) = None
         \<and> w_fails example_world (UserGetStrength u) = None)
   \<and> userRangeMem example_factory = [1, 2, 3, 4]
   \<and> getConquer example_world example_factory = Inr (- 10 + 20 - 4, 2)"
  using getConquer_signed_sum [of example_world example_factory]
  by (simp add: example_world_def example_factory_def)

section \<open>Tick\<close>

lemma getProductionIn_ok:
  "w_fails w GetConfig = None \<Longrightarrow> w_fails w GetLevel = None \<Longrightarrow>
     getProductionIn w = Inr (c_getProductionIn (c_factory (w_config w)) (fm_level (w_model w)))"
  by (simp add: getProductionIn_def getConfig_def getLevel_def fetch_ok on_success_Inr)

lemma getProductionOut_ok:
  "w_fails w GetConfig = None \<Longrightarrow> w_fails w GetLevel = None \<Longrightarrow>
     getProductionOut w = Inr (c_getProductionOut (c_factory (w_config w)) (fm_level (w_model w)))"
  by (simp add: getProductionOut_def getConfig_def getLevel_def fetch_ok on_success_Inr)

lemma write_model_ok:
  "w_fails w c = None \<Longrightarrow> write_model w c upd = (None, w\<lparr>w_model := upd (w_model w)\<rparr>)"
  by (simp add: write_model_def)

lemma write_model_fails [simp]: "w_fails (snd (write_model w c upd)) = w_fails w"
  by (simp add: write_model_def split: option.split)

text \<open>
  Claim C3. When the configuration, the level and the in-stock are read and the two
  writes are done without error: a tick of a factory whose in-stock is at least the
  input production of its level subtracts that production from the in-stock and adds
  the output production to the out-stock, and changes nothing else; a tick of a factory
  whose in-stock is smaller calls back \<open>null\<close> and changes nothing.
\<close>

theorem tick_production:
  assumes "w_fails w GetConfig = None" and "w_fails w GetLevel = None"
    and "w_fails w GetIn = None"
    and "w_fails w SubtractIn = None" and "w_fails w AddOut = None"
  shows "(let productionIn = c_getProductionIn (c_factory (w_config w)) (fm_level (w_model w));
              productionOut = c_getProductionOut (c_factory (w_config w)) (fm_level (w_model w))
          in (productionIn \<le> fm_in (w_model w) \<longrightarrow>
                snd (tick w) =
                  w\<lparr>w_model := (w_model w)\<lparr>fm_in := fm_in (w_model w) - productionIn,
                                            fm_out := fm_out (w_model w) + productionOut\<rparr>\<rparr>)
           \<and> (fm_in (w_model w) < productionIn \<longrightarrow> tick w = (None, w)))"
  using assms
  by (simp add: tick_def getProductionIn_ok getProductionOut_ok getIn_def fetch_ok
      subtractIn_def addOut_def write_model_ok Let_def split: option.split)

theorem tick_production_witness:
  "w_fails example_world GetConfig = None \<and> w_fails example_world GetLevel = None
   \<and> w_fails example_world GetIn = None
   \<and> w_fails example_world SubtractIn = None \<and> w_fails example_world AddOut = None
   \<and> (6::int) \<le> fm_in (w_model example_world)
   \<and> fm_in (w_model (snd (tick example_world))) = 4
   \<and> fm_out (w_model (snd (tick example_world))) = 9
   \<and> fm_in (w_model (example_world\<lparr>w_model := (w_model example_world)\<lparr>fm_in := 5\<rparr>\<rparr>)) < 6
   \<and> tick (example_world\<lparr>w_model := (w_model example_world)\<lparr>fm_in := 5\<rparr>\<rparr>)
       = (None, example_world\<lparr>w_model := (w_model example_world)\<lparr>fm_in := 5\<rparr>\<rparr>)"
  using tick_production [of example_world]
        tick_production [of "example_world\<lparr>w_model := (w_model example_world)\<lparr>fm_in := 5\<rparr>\<rparr>"]
  by (simp add: example_world_def example_config_def Let_def)

section \<open>Visibility state\<close>

lemma on_success_InrE:
  assumes "on_success x k = Inr r"
  obtains v where "x = Inr v" and "k v = Inr r"
  using assms by (cases x) (simp_all add: on_success_def)

lemma visible_flags_step:
  assumes "(let r1 = (if c1 then r0\<lparr>visible := True, inRange := False\<rparr> else r0);
                r2 = (if c2 then r1\<lparr>visible := True, pinged := True\<rparr> else r1);
                r3 = (if c3 then r2\<lparr>ally := True, visible := True\<rparr> else r2)
            in if c4
               then on_success x (\<lambda>result.
                      Inr (if result then r3\<lparr>inRange := result, visible := True\<rparr>
                           else r3\<lparr>inRange := result\<rparr>))
               else Inr r3) = Inr r"
    and "r0 = \<lparr>ally = False, visible = False, inRange = False, pinged = False\<rparr>"
    and "ally r \<or> inRange r \<or> pinged r"
  shows "visible r"
  using assms
  by (cases c1; cases c2; cases c3; cases c4; cases x)
     (auto simp: Let_def on_success_def split: if_splits)

lemma getVisibilityState_visible:
  assumes res: "getVisibilityState w f liveUser = Inr r"
    and flag: "ally r \<or> inRange r \<or> pinged r"
  shows "visible r"
proof (cases liveUser)
  case None
  with res flag show ?thesis by (auto simp: getVisibilityState_def)
next
  case (Some u)
  show ?thesis
  proof (cases "w_modelPresent w")
    case False
    with Some res flag show ?thesis by (auto simp: getVisibilityState_def)
  next
    case True
    from res show ?thesis
      unfolding getVisibilityState_def
      apply (subst (asm) Let_def)
      apply (simp only: Some option.case True not_True_eq_False if_False)
      apply (elim on_success_InrE)
      apply (erule visible_flags_step [OF _ refl flag])
      done
  qed
qed

lemma getVisibilityState_null:
  "liveUser = None \<or> \<not> w_modelPresent w \<Longrightarrow>
     getVisibilityState w f liveUser =
       Inr \<lparr>ally = False, visible = False, inRange = False, pinged = False\<rparr>"
  by (cases liveUser) (auto simp: getVisibilityState_def)

text \<open>
  Claim C10. Whenever \<open>getVisibilityState\<close> calls back a result object, its \<open>visible\<close>
  flag is true if any of \<open>ally\<close>, \<open>inRange\<close> and \<open>pinged\<close> is; and for a \<open>null\<close> live
  user or a missing factory model the result object is called back with all four flags
  false.
\<close>

theorem getVisibilityState_flags:
  "(\<forall>r. getVisibilityState w f liveUser = Inr r \<longrightarrow>
         (ally r \<or> inRange r \<or> pinged r \<longrightarrow> visible r))
   \<and> (liveUser = None \<or> \<not> w_modelPresent w \<longrightarrow>
         getVisibilityState w f liveUser =
           Inr \<lparr>ally = False, visible = False, inRange = False, pinged = False\<rparr>)"
  using getVisibilityState_visible [of w f liveUser] getVisibilityState_null [of liveUser w f]
  by blast

theorem getVisibilityState_flags_witness:
  "getVisibilityState example_world example_factory (Some 2) =
     Inr \<lparr>ally = False, visible = True, inRange = True, pinged = True\<rparr>
   \<and> getVisibilityState example_world example_factory None =
     Inr \<lparr>ally = False, visible = False, inRange = False, pinged = False\<rparr>"
proof -
  have ev: "getVisibilityState example_world example_factory (Some 2) =
     Inr \<lparr>ally = False, visible = True, inRange = True, pinged = True\<rparr>"
    by (simp add: getVisibilityState_def example_world_def example_factory_def example_config_def
        getTeam_def fetch_def on_success_def isInPingMemory_def isUserInRange_def getRange_def
        getConfig_def getLevel_def getLocation_def isInRangeMemory_def Let_def)
  show ?thesis
    using ev getVisibilityState_flags [of example_world example_factory "Some 2"]
      getVisibilityState_flags [of example_world example_factory None]
    by simp
qed

section \<open>Shop: is the user in range\<close>

lemma shop_isUserInRange_guards:
  "shop_isUserInRange w s None = Callback (Inr False)"
  "w_userId w (s_user s) = w_userId w u \<Longrightarrow> shop_isUserInRange w s (Some u) = Callback (Inr True)"
  "w_userId w (s_user s) \<noteq> w_userId w u \<Longrightarrow> \<not> w_hasRecentLocation w u \<Longrightarrow>
     shop_isUserInRange w s (Some u) = Callback (Inr False)"
  by (simp_all add: shop_isUserInRange_def)

lemma shop_isUserInRange_never_compares:
  "w_userId w (s_user s) \<noteq> w_userId w u \<Longrightarrow> w_hasRecentLocation w u \<Longrightarrow>
     shop_isUserInRange w s (Some u) = Threw SelfNotDefined
     \<or> (\<exists>e. shop_isUserInRange w s (Some u) = Callback (Inl e))"
  by (simp add: shop_isUserInRange_def split: sum.split)

text \<open>
  Claim C7. For a live user who is not the owner of the shop and has a recent location,
  \<open>isUserInRange\<close> should call back whether the distance from the shop to the user is at
  most the shop's range for that user. In the concrete game, user 2 stands one unit
  from the shop of user 1, whose range for user 2 is 25: the call throws and calls
  nothing back.
\<close>

theorem shop_isUserInRange_throws:
  "w_userId example_world (s_user example_shop) \<noteq> w_userId example_world 2
   \<and> w_hasRecentLocation example_world 2
   \<and> w_userLocation example_world (s_user example_shop) = (1, 0)
   \<and> w_userLocation example_world 2 = (2, 0)
   \<and> shop_getRange example_world example_shop (Some 2) = Inr 25
   \<and> shop_isUserInRange example_world example_shop (Some 2) = Threw SelfNotDefined"
  by (simp add: shop_isUserInRange_def shop_getRange_def getConfig_def fetch_def on_success_def
      shop_isInRangeMemory_def example_world_def example_shop_def example_config_def)

section \<open>Attack\<close>

lemma fetchNames_ok: "\<forall>c. w_fails w c = None \<Longrightarrow> fetchNames w user userTeam = None"
  by (simp add: fetchNames_def)

lemma attack_refused:
  assumes "\<forall>c. w_fails w c = None" and "w_userTeam w user = Some userTeam"
    and "getConquer w f = Inr (conquer, n)"
    and "conquer \<le> 0 \<or> fm_team (w_model w) = Some userTeam"
  shows "attack w f user =
           ([Some (if conquer \<le> 0 then ConquerNotAboveZero else AllyFactory)], w)"
  using assms by (auto simp: attack_def getTeam_def fetch_ok)

lemma attack_destroys:
  assumes "\<forall>c. w_fails w c = None" and "w_userTeam w user = Some userTeam"
    and "getConquer w f = Inr (conquer, n)"
    and "0 < conquer" and "fm_team (w_model w) \<noteq> Some userTeam"
    and "fm_level (w_model w) \<le> 1"
  shows "attack w f user = ([], w\<lparr>w_destroyed := True\<rparr>)"
  using assms
  by (simp add: attack_def getTeam_def getLevel_def fetch_ok fetchNames_ok destroy_def)

lemma attack_captures:
  assumes "\<forall>c. w_fails w c = None" and "w_userTeam w user = Some userTeam"
    and "getConquer w f = Inr (conquer, n)"
    and "0 < conquer" and "fm_team (w_model w) \<noteq> Some userTeam"
    and "1 < fm_level (w_model w)"
  shows "attack w f user =
           ([None],
            w\<lparr>w_model := (w_model w)
                 \<lparr>fm_team := Some userTeam,
                  fm_level := fm_level (w_model w) - 1,
                  fm_in := c_attackNewIn (c_factory (w_config w)) (fm_in (w_model w)),
                  fm_out := c_attackNewOut (c_factory (w_config w)) (fm_out (w_model w)),
                  fm_defence := c_attackNewDefence (c_factory (w_config w)) (fm_defence (w_model w))\<rparr>\<rparr>)"
  using assms
  by (simp add: attack_def getTeam_def getLevel_def getIn_def getOut_def getDefence_def
      getConfig_def fetch_ok fetchNames_ok write_model_ok Let_def)

lemma getConquer_example:
  "getConquer example_world example_factory = Inr (6, 2)"
  "getConquer example_world_level_one example_factory = Inr (6, 2)"
  by (simp_all add: getConquer_def getDefence_def getTeam_def fetch_def on_success_def
      example_world_level_one_def example_world_def example_factory_def)

text \<open>
  Claim C2, as stated, fails for a factory of level one. In the concrete game at level
  one, user 2 of team 2 attacks the factory of team 1 with a conquer value of 6: the
  factory is destroyed, its team is not changed to the attacker's, and no error is
  called back.
\<close>

theorem attack_level_one_counterexample:
  "w_userTeam example_world_level_one 2 = Some 2
   \<and> fm_team (w_model example_world_level_one) = Some 1
   \<and> getConquer example_world_level_one example_factory = Inr (6, 2)
   \<and> \<not> ((fm_team (w_model (snd (attack example_world_level_one example_factory 2))) = Some 2)
          = ((0::int) < 6 \<and> fm_team (w_model example_world_level_one) \<noteq> Some 2))
   \<and> fst (attack example_world_level_one example_factory 2) = []
   \<and> w_destroyed (snd (attack example_world_level_one example_factory 2))"
proof -
  have nofail: "\<forall>c. w_fails example_world_level_one c = None"
    by (simp add: example_world_level_one_def example_world_def)
  have team: "w_userTeam example_world_level_one 2 = Some 2"
    by (simp add: example_world_level_one_def example_world_def)
  have other: "fm_team (w_model example_world_level_one) \<noteq> Some 2"
    and level: "fm_level (w_model example_world_level_one) \<le> 1"
    by (simp_all add: example_world_level_one_def example_world_def)
  have "attack example_world_level_one example_factory 2 =
          ([], example_world_level_one\<lparr>w_destroyed := True\<rparr>)"
    by (rule attack_destroys [OF nofail team getConquer_example(2) _ other level]) simp
  then show ?thesis
    using getConquer_example(2)
    by (simp add: example_world_level_one_def example_world_def)
qed

text \<open>
  Claim C2, amended. Let a user who has a team attack a factory, with no collaborator
  call failing. The factory's team becomes the attacker's team exactly when the conquer
  value is above zero, the attacker's team differs from the factory's team and the
  factory's level is above one; the attack then lowers the level by one, rewrites the
  stocks and the defence as the configuration says and calls back \<open>null\<close>. Under the
  first two conditions a factory of level one or lower is destroyed instead, its
  document not rewritten. When the conquer value is not above zero or the attacker is
  of the factory's team, attack calls back an error and changes nothing.
\<close>

theorem attack_ownership:
  assumes "\<forall>c. w_fails w c = None" and "w_userTeam w user = Some userTeam"
    and "getConquer w f = Inr (conquer, n)"
  shows "((fm_team (w_model (snd (attack w f user))) = Some userTeam
            \<and> fm_team (w_model w) \<noteq> Some userTeam)
          = (0 < conquer \<and> fm_team (w_model w) \<noteq> Some userTeam \<and> 1 < fm_level (w_model w)))
       \<and> (0 < conquer \<and> fm_team (w_model w) \<noteq> Some userTeam \<and> 1 < fm_level (w_model w) \<longrightarrow>
            attack w f user =
              ([None],
               w\<lparr>w_model := (w_model w)
                    \<lparr>fm_team := Some userTeam,
                     fm_level := fm_level (w_model w) - 1,
                     fm_in := c_attackNewIn (c_factory (w_config w)) (fm_in (w_model w)),
                     fm_out := c_attackNewOut (c_factory (w_config w)) (fm_out (w_model w)),
                     fm_defence :=
                       c_attackNewDefence (c_factory (w_config w)) (fm_defence (w_model w))\<rparr>\<rparr>))
       \<and> (0 < conquer \<and> fm_team (w_model w) \<noteq> Some userTeam \<and> fm_level (w_model w) \<le> 1 \<longrightarrow>
            w_destroyed (snd (attack w f user))
            \<and> w_model (snd (attack w f user)) = w_model w)
       \<and> (conquer \<le> 0 \<or> fm_team (w_model w) = Some userTeam \<longrightarrow>
            (\<exists>e. fst (attack w f user) = [Some e]) \<and> snd (attack w f user) = w)"
proof -
  consider (refused) "conquer \<le> 0 \<or> fm_team (w_model w) = Some userTeam"
    | (destroys) "0 < conquer" "fm_team (w_model w) \<noteq> Some userTeam" "fm_level (w_model w) \<le> 1"
    | (captures) "0 < conquer" "fm_team (w_model w) \<noteq> Some userTeam" "1 < fm_level (w_model w)"
    by linarith
  then show ?thesis
  proof cases
    case refused
    from attack_refused [OF assms refused] refused show ?thesis by auto
  next
    case destroys
    from attack_destroys [OF assms destroys] destroys show ?thesis by simp
  next
    case captures
    from attack_captures [OF assms captures] captures show ?thesis by simp
  qed
qed

theorem attack_ownership_witness:
  "(\<forall>c. w_fails example_world c = None) \<and> w_userTeam example_world 2 = Some 2
   \<and> getConquer example_world example_factory = Inr (6, 2)
   \<and> fm_team (w_model example_world) = Some 1 \<and> fm_level (w_model example_world) = 3
   \<and> fst (attack example_world example_factory 2) = [None]
   \<and> w_model (snd (attack example_world example_factory 2)) =
       \<lparr>fm_team = Some 2, fm_level = 2, fm_defence = 0, fm_in = 5, fm_out = 0,
        fm_location = (0, 0)\<rparr>"
proof -
  have nofail: "\<forall>c. w_fails example_world c = None" by (simp add: example_world_def)
  have team: "w_userTeam example_world 2 = Some 2" by (simp add: example_world_def)
  show ?thesis
    using attack_ownership [OF nofail team getConquer_example(1)] nofail team
      getConquer_example(1)
    by (simp add: example_world_def example_config_def)
qed

section \<open>Shop: scheduled handover\<close>

lemma indexOf_notin: "x \<notin> set xs \<Longrightarrow> indexOf xs x = - 1"
  using indexOf_nonneg_iff [of xs x] indexOf_ge_minus1 [of xs x] by simp

lemma splice1_indexOf_map:
  "s_ref s \<in> set (map s_ref shops) \<Longrightarrow> distinct (map s_ref shops) \<Longrightarrow>
     splice1 shops (indexOf (map s_ref shops) (s_ref s)) =
       filter (\<lambda>x. s_ref x \<noteq> s_ref s) shops"
proof (induction shops)
  case Nil
  then show ?case by simp
next
  case (Cons a shops)
  show ?case
  proof (cases "s_ref a = s_ref s")
    case True
    with Cons.prems(2) have "\<forall>x \<in> set shops. s_ref x \<noteq> s_ref s" by force
    then have "filter (\<lambda>x. s_ref x \<noteq> s_ref s) shops = shops" by (simp add: filter_id_conv)
    with True show ?thesis by (simp add: splice1_def)
  next
    case False
    with Cons.prems have mem: "s_ref s \<in> set (map s_ref shops)"
      and dist: "distinct (map s_ref shops)" by auto
    from mem have nn: "0 \<le> indexOf (map s_ref shops) (s_ref s)"
      by (simp add: indexOf_nonneg_iff)
    from mem have "indexOf (map s_ref shops) (s_ref s) < int (length (map s_ref shops))"
      by (rule indexOf_less_length)
    then have lt: "indexOf (map s_ref shops) (s_ref s) < int (length shops)" by simp
    from nn have suc: "nat (indexOf (map s_ref shops) (s_ref s) + 1)
        = Suc (nat (indexOf (map s_ref shops) (s_ref s)))" by simp
    from Cons.IH [OF mem dist] nn lt
    have ih: "take (nat (indexOf (map s_ref shops) (s_ref s))) shops
              @ drop (Suc (nat (indexOf (map s_ref shops) (s_ref s)))) shops
              = filter (\<lambda>x. s_ref x \<noteq> s_ref s) shops"
      by (simp add: splice1_def Let_def min_def)
    from False nn lt suc ih show ?thesis
      by (simp add: splice1_def Let_def min_def)
  qed
qed

lemma splice1_subset: "set (splice1 xs i) \<subseteq> set xs"
  by (auto simp: splice1_def Let_def dest: in_set_takeD in_set_dropD)

lemma functionTransfer_removes:
  assumes "distinct (map s_ref shops)"
  shows "s_ref s \<notin> s_ref ` set (fst (functionTransfer shops s))"
proof (cases "s_ref s \<in> set (map s_ref shops)")
  case True
  from splice1_indexOf_map [OF True assms] show ?thesis
    by (auto simp: functionTransfer_def)
next
  case False
  with splice1_subset [of shops "indexOf (map s_ref shops) (s_ref s)"] show ?thesis
    by (auto simp: functionTransfer_def)
qed

text \<open>
  Claim C6. Let the configuration be fetched without error, let \<open>lifeTime\<close> be the
  shop's lifetime and \<open>alertTime\<close> the smaller of \<open>shopAlertTime\<close> and \<open>lifeTime\<close>.
  \<open>load\<close> sets exactly one timer: the preparation step, after \<open>lifeTime - alertTime\<close>.
  When the owner has a team and the two lookups of the preparation step do not fail:
  with no replacement user and a delta of at least zero the step only sets itself
  again, after \<open>workerInterval\<close>; with a replacement user or a negative delta it sets
  the transfer, after \<open>alertTime\<close>, and does not set itself again. The transfer takes
  the shop out of the shop manager's list, keeps the other shops, and tells the owner
  that he is no longer a dealer.
\<close>

theorem load_schedules_handover:
  assumes "w_fails w GetConfig = None"
    and "lifeTime = c_getShopLifetime (c_shop (w_config w))"
    and "alertTime = min (c_shopAlertTime (c_shop (w_config w))) lifeTime"
    and "workerInterval = c_workerInterval (c_shop (w_config w))"
  shows "snd (snd (load w s)) =
           [SetTimeout (PrepareTransfer alertTime workerInterval) (lifeTime - alertTime)]
       \<and> (w_teamModel w (s_user s) = Some teamModel
            \<and> w_fails w FindNewShopUser = None
            \<and> w_fails w GetTeamPreferredShopCountDelta = None \<longrightarrow>
           (w_newShopUser w teamModel = None \<and> 0 \<le> w_shopCountDelta w teamModel \<longrightarrow>
              functionPrepareTransfer w s alertTime workerInterval =
                [SetTimeout (PrepareTransfer alertTime workerInterval) workerInterval])
         \<and> (w_newShopUser w teamModel \<noteq> None \<or> w_shopCountDelta w teamModel < 0 \<longrightarrow>
              [e \<leftarrow> functionPrepareTransfer w s alertTime workerInterval.
                 \<exists>t d. e = SetTimeout t d] = [SetTimeout Transfer alertTime]))
       \<and> (distinct (map s_ref shops) \<and> s \<in> set shops \<longrightarrow>
            fst (functionTransfer shops s) = filter (\<lambda>x. s_ref x \<noteq> s_ref s) shops
            \<and> s_ref s \<notin> s_ref ` set (fst (functionTransfer shops s))
            \<and> SendMessage NoLongerDealer (s_user s) \<in> set (snd (functionTransfer shops s)))"
proof (intro conjI impI)
  show "snd (snd (load w s)) =
           [SetTimeout (PrepareTransfer alertTime workerInterval) (lifeTime - alertTime)]"
    using assms by (simp add: load_def getConfig_def fetch_ok Let_def)
next
  assume "w_teamModel w (s_user s) = Some teamModel
            \<and> w_fails w FindNewShopUser = None
            \<and> w_fails w GetTeamPreferredShopCountDelta = None"
    and "w_newShopUser w teamModel = None \<and> 0 \<le> w_shopCountDelta w teamModel"
  then show "functionPrepareTransfer w s alertTime workerInterval =
                [SetTimeout (PrepareTransfer alertTime workerInterval) workerInterval]"
    by (simp add: functionPrepareTransfer_def fetch_ok)
next
  assume "w_teamModel w (s_user s) = Some teamModel
            \<and> w_fails w FindNewShopUser = None
            \<and> w_fails w GetTeamPreferredShopCountDelta = None"
    and "w_newShopUser w teamModel \<noteq> None \<or> w_shopCountDelta w teamModel < 0"
  then show "[e \<leftarrow> functionPrepareTransfer w s alertTime workerInterval.
                 \<exists>t d. e = SetTimeout t d] = [SetTimeout Transfer alertTime]"
    by (auto simp: functionPrepareTransfer_def fetch_ok split: option.splits)
next
  assume a: "distinct (map s_ref shops) \<and> s \<in> set shops"
  then have "s_ref s \<in> set (map s_ref shops)" by auto
  from splice1_indexOf_map [OF this] a
  show "fst (functionTransfer shops s) = filter (\<lambda>x. s_ref x \<noteq> s_ref s) shops"
    by (simp add: functionTransfer_def)
next
  assume "distinct (map s_ref shops) \<and> s \<in> set shops"
  then show "s_ref s \<notin> s_ref ` set (fst (functionTransfer shops s))"
    by (simp add: functionTransfer_removes)
next
  show "SendMessage NoLongerDealer (s_user s) \<in> set (snd (functionTransfer shops s))"
    by (simp add: functionTransfer_def)
qed

theorem load_schedules_handover_witness:
  "w_fails example_world GetConfig = None
   \<and> snd (snd (load example_world (Shop 0 1))) = [SetTimeout (PrepareTransfer 30 5) 70]
   \<and> functionPrepareTransfer example_world (Shop 1 2) 30 5 = [SetTimeout (PrepareTransfer 30 5) 5]
   \<and> [e \<leftarrow> functionPrepareTransfer example_world (Shop 0 1) 30 5. \<exists>t d. e = SetTimeout t d]
       = [SetTimeout Transfer 30]
   \<and> fst (functionTransfer [Shop 0 1, Shop 1 2] (Shop 0 1)) = [Shop 1 2]"
proof -
  have cfg: "w_fails example_world GetConfig = None" by (simp add: example_world_def)
  have lt: "(100::int) = c_getShopLifetime (c_shop (w_config example_world))"
    by (simp add: example_world_def example_config_def)
  have at: "(30::int) = min (c_shopAlertTime (c_shop (w_config example_world))) 100"
    by (simp add: example_world_def example_config_def)
  have wi: "(5::int) = c_workerInterval (c_shop (w_config example_world))"
    by (simp add: example_world_def example_config_def)
  note owner = load_schedules_handover [OF cfg lt at wi,
      where s = "Shop 0 1" and teamModel = 1 and shops = "[Shop 0 1, Shop 1 2]"]
  note other = load_schedules_handover [OF cfg lt at wi,
      where s = "Shop 1 2" and teamModel = 2 and shops = "[Shop 0 1, Shop 1 2]"]
  have team1: "w_teamModel example_world (s_user (Shop 0 1)) = Some 1
      \<and> w_fails example_world FindNewShopUser = None
      \<and> w_fails example_world GetTeamPreferredShopCountDelta = None"
    and team2: "w_teamModel example_world (s_user (Shop 1 2)) = Some 2
      \<and> w_fails example_world FindNewShopUser = None
      \<and> w_fails example_world GetTeamPreferredShopCountDelta = None"
    by (simp_all add: example_world_def Shop_def)
  have new1: "w_newShopUser example_world 1 \<noteq> None \<or> w_shopCountDelta example_world 1 < 0"
    and new2: "w_newShopUser example_world 2 = None \<and> 0 \<le> w_shopCountDelta example_world 2"
    by (simp_all add: example_world_def)
  have list: "distinct (map s_ref [Shop 0 1, Shop 1 2]) \<and> Shop 0 1 \<in> set [Shop 0 1, Shop 1 2]"
    by (simp add: Shop_def)
  have "snd (snd (load example_world (Shop 0 1))) = [SetTimeout (PrepareTransfer 30 5) 70]"
    using owner by simp
  moreover have "functionPrepareTransfer example_world (Shop 1 2) 30 5
      = [SetTimeout (PrepareTransfer 30 5) 5]"
    using other team2 new2 by blast
  moreover have "[e \<leftarrow> functionPrepareTransfer example_world (Shop 0 1) 30 5.
      \<exists>t d. e = SetTimeout t d] = [SetTimeout Transfer 30]"
    using owner team1 new1 by blast
  moreover have "fst (functionTransfer [Shop 0 1, Shop 1 2] (Shop 0 1))
      = filter (\<lambda>x. s_ref x \<noteq> s_ref (Shop 0 1)) [Shop 0 1, Shop 1 2]"
    using owner list by blast
  then have "fst (functionTransfer [Shop 0 1, Shop 1 2] (Shop 0 1)) = [Shop 1 2]"
    by (simp add: Shop_def)
  ultimately show ?thesis using cfg by simp
qed

section \<open>The shop buy-out handler\<close>

lemma findShop_Some:
  "findShop gs rawShop = Some (i, liveShop) \<Longrightarrow>
     i < length gs \<and> liveShop \<in> set (g_shops (gs ! i)) \<and> isShopToken liveShop rawShop"
proof (induction gs arbitrary: i)
  case Nil
  then show ?case by simp
next
  case (Cons g gs)
  show ?case
  proof (cases "find (\<lambda>liveShop. isShopToken liveShop rawShop) (g_shops g)")
    case (Some sh)
    with Cons.prems have "i = 0" "liveShop = sh" by simp_all
    with Some show ?thesis by (auto simp: find_Some_iff)
  next
    case None
    with Cons.prems obtain j where "findShop gs rawShop = Some (j, liveShop)" "i = Suc j"
      by auto
    with Cons.IH [of j] show ?thesis by simp
  qed
qed

text \<open>
  The sale, for a user for whom the shop's range check calls back true: with a
  well-formed packet, a valid session, the shop found and no collaborator call failing,
  an amount \<open>n\<close> with \<open>0 < n \<le> outCurrent\<close> is subtracted from the out balance and
  \<open>round(n * price)\<close> is added to the money balance.
\<close>

lemma handler_sells:
  assumes shop: "p_shop packet = Some rawShop"
    and fld: "p_amount packet \<noteq> None \<or> p_all packet \<noteq> None"
    and auth: "socket = Some ss" "ss_valid ss = Some v" "truthy v"
    and found: "findShop gs rawShop = Some (i, liveShop)"
    and nofail: "\<forall>c. w_fails (g_world (gs ! i)) c = None"
    and user: "g_liveUser (gs ! i) = Some liveUser"
    and inrange: "shop_isUserInRange (g_world (gs ! i)) liveShop (Some liveUser) = Callback (Inr True)"
    and bal: "g_out (gs ! i) = Some outCurrent" "g_money (gs ! i) = Some moneyCurrent"
    and amount: "(if field (p_all packet) = JBool True then Some outCurrent
                  else parseInt (field (p_outAmount packet))) = Some n"
    and pos: "0 < n" "n \<le> outCurrent"
  shows "handler gs packet socket =
           \<lparr>sent = [Sold (Some n) (Some \<lfloor>of_int n * g_price (gs ! i) + 1 / 2\<rfloor>)],
            thrown = None,
            games = gs[i := (gs ! i)
                      \<lparr>g_out := Some (outCurrent - n),
                       g_money := Some (moneyCurrent + \<lfloor>of_int n * g_price (gs ! i) + 1 / 2\<rfloor>)\<rparr>]\<rparr>"
proof -
  have "buyOut (gs ! i) liveShop (field (p_outAmount packet)) (field (p_all packet)) =
          ([Sold (Some n) (Some \<lfloor>of_int n * g_price (gs ! i) + 1 / 2\<rfloor>)], None,
           (gs ! i)\<lparr>g_out := Some (outCurrent - n),
                     g_money := Some (moneyCurrent + \<lfloor>of_int n * g_price (gs ! i) + 1 / 2\<rfloor>)\<rparr>)"
    using nofail user inrange bal amount pos
    by (simp add: buyOut_def fetch_ok Let_def js_gt_def js_lt_def subtractOut_def addMoney_def
        js_sub_def js_add_def roundedProduct_def)
  with shop fld auth found show ?thesis
    by (simp add: handler_def field_def Let_def)
qed

text \<open>
  What the handler refuses: a packet without a shop or without both \<open>amount\<close> and
  \<open>all\<close>, and a socket without a valid session, are answered by an error message,
  nothing else done; an amount that is zero, negative or above the out balance leaves
  every game as it was, and is answered by an error message unless an exception ends
  the handling before (only the shop's range check throws).
\<close>

lemma buyOut_refuses:
  assumes "outAmount = (if rawAll = JBool True then g_out g else parseInt rawOutAmount)"
    and "js_gt outAmount (g_out g) \<or> js_lt outAmount (Some 0) \<or> outAmount = Some 0"
    and "buyOut g liveShop rawOutAmount rawAll = (msgs, exn, g')"
  shows "g' = g \<and> (exn = None \<and> (\<exists>m \<in> set msgs. isError m)
                   \<or> exn = Some SelfNotDefined \<and> msgs = [])"
  using assms
  by (auto simp: buyOut_def fetch_def Let_def shop_isUserInRange_def
      split: sum.splits option.splits outcome.splits bool.splits if_splits)

lemma handler_refuses:
  "p_shop packet = None \<or> (p_amount packet = None \<and> p_all packet = None) \<Longrightarrow>
     handler gs packet socket = \<lparr>sent = [ServerError], thrown = None, games = gs\<rparr>"
  "\<not> (p_shop packet = None \<or> (p_amount packet = None \<and> p_all packet = None)) \<Longrightarrow>
   socket = None \<or> ss_valid (the socket) = None \<or> \<not> truthy (field (ss_valid (the socket))) \<Longrightarrow>
     handler gs packet socket = \<lparr>sent = [NotAuthenticated], thrown = None, games = gs\<rparr>"
  by (auto simp: handler_def Let_def split: option.splits)

lemma handler_refuses_amount:
  assumes found: "findShop gs (field (p_shop packet)) = Some (i, liveShop)"
    and amount: "outAmount = (if field (p_all packet) = JBool True then g_out (gs ! i)
                              else parseInt (field (p_outAmount packet)))"
    and bad: "js_gt outAmount (g_out (gs ! i)) \<or> js_lt outAmount (Some 0) \<or> outAmount = Some 0"
  shows "games (handler gs packet socket) = gs
       \<and> (thrown (handler gs packet socket) = None \<and>
            (\<exists>m \<in> set (sent (handler gs packet socket)). isError m)
          \<or> thrown (handler gs packet socket) = Some SelfNotDefined)"
proof -
  obtain msgs exn g' where
    b: "buyOut (gs ! i) liveShop (field (p_outAmount packet)) (field (p_all packet)) = (msgs, exn, g')"
    by (cases "buyOut (gs ! i) liveShop (field (p_outAmount packet)) (field (p_all packet))")
  from buyOut_refuses [OF amount bad b]
  have r: "g' = gs ! i"
    "exn = None \<and> (\<exists>m \<in> set msgs. isError m) \<or> exn = Some SelfNotDefined \<and> msgs = []"
    by simp_all
  from r(2) show ?thesis
    using found b r(1)
    by (auto simp: handler_def Let_def split: option.splits)
qed

lemma parseInt_examples:
  "parseInt (JStr ''3'') = Some 3"
  "parseInt (JStr '' -12abc'') = Some (- 12)"
  "parseInt (JStr ''0x1F'') = Some 31"
  "parseInt (JStr ''abc'') = None"
  "parseInt JUndefined = None"
  by (simp_all add: parseInt_def parseIntString_def isWhiteSpace_def isDigit_def digitValue_def
      digitsValue_def Let_def)

lemma example_game_found:
  "findShop [example_game] (JStr ''tok'') = Some (0, example_shop)"
  "findShop [example_game\<lparr>g_liveUser := Some 1\<rparr>] (JStr ''tok'') = Some (0, example_shop)"
  by (simp_all add: example_game_def example_shop_def isShopToken_def)

lemma example_game_nofail: "w_fails (g_world example_game) c = None"
  by (simp add: example_game_def example_world_def)

text \<open>
  The owner of the shop, for whom the range check calls back true, sells three of his
  ten goods at 5/2 a piece: the message, and balances of 7 goods and 8 money.
\<close>

lemma handler_sells_example:
  "handler [example_game\<lparr>g_liveUser := Some 1\<rparr>] (example_packet (JStr ''3'')) example_socket =
     \<lparr>sent = [Sold (Some 3) (Some 8)], thrown = None,
      games = [example_game\<lparr>g_liveUser := Some 1, g_out := Some 7, g_money := Some 8\<rparr>]\<rparr>"
proof -
  have inrange: "shop_isUserInRange (g_world ([example_game\<lparr>g_liveUser := Some 1\<rparr>] ! 0))
                   example_shop (Some 1) = Callback (Inr True)"
    by (simp add: shop_isUserInRange_def example_game_def example_shop_def example_world_def)
  have amount: "(if field (p_all (example_packet (JStr ''3''))) = JBool True then Some 10
                 else parseInt (field (p_outAmount (example_packet (JStr ''3''))))) = Some 3"
    by (simp add: example_packet_def field_def parseInt_examples)
  have "handler [example_game\<lparr>g_liveUser := Some 1\<rparr>] (example_packet (JStr ''3'')) example_socket =
     \<lparr>sent = [Sold (Some 3)
               (Some \<lfloor>of_int 3 * g_price ([example_game\<lparr>g_liveUser := Some 1\<rparr>] ! 0) + 1 / 2\<rfloor>)],
      thrown = None,
      games = [example_game\<lparr>g_liveUser := Some 1\<rparr>]
        [0 := ([example_game\<lparr>g_liveUser := Some 1\<rparr>] ! 0)
           \<lparr>g_out := Some (10 - 3),
            g_money := Some (0 + \<lfloor>of_int 3 * g_price ([example_game\<lparr>g_liveUser := Some 1\<rparr>] ! 0)
                                 + 1 / 2\<rfloor>)\<rparr>]\<rparr>"
    by (rule handler_sells [where rawShop = "JStr ''tok''" and ss = "the example_socket"
          and v = "JBool True" and liveShop = example_shop and liveUser = 1,
          OF _ _ _ _ _ example_game_found(2) _ _ inrange _ _ amount])
       (simp_all add: example_packet_def example_socket_def truthy_def example_game_def
          example_world_def)
  then show ?thesis
    by (simp add: example_game_def)
qed

text \<open>
  Whoever is not the owner of the shop and has a recent location cannot sell: when the
  game user, the live user and the configuration are fetched without error, the chain
  ends in the exception of the range check, with no message sent and nothing changed.
\<close>

lemma buyOut_throws:
  assumes "w_fails (g_world g) GetGameUserModel = None"
    and "w_fails (g_world g) GameGetUser = None"
    and "w_fails (g_world g) GetConfig = None"
    and "g_liveUser g = Some u"
    and "w_userId (g_world g) (s_user liveShop) \<noteq> w_userId (g_world g) u"
    and "w_hasRecentLocation (g_world g) u"
  shows "buyOut g liveShop rawOutAmount rawAll = ([], Some SelfNotDefined, g)"
  using assms
  by (simp add: buyOut_def fetch_ok shop_isUserInRange_def shop_getRange_def getConfig_def
      on_success_Inr)

text \<open>
  Claim C4. User 2 is authenticated, is not the owner of the shop, has a recent
  location one unit from the shop (whose range for him is 25) and ten out goods; he sells
  three of them with a well-formed packet. The sale should subtract three goods and
  add \<open>round(3 * 5/2) = 8\<close> money. The handling ends in the shop's range check, which
  throws: no message is sent and the balances stay as they were.
\<close>

theorem handler_sale_throws:
  "example_socket = Some \<lparr>ss_valid = Some (JBool True), ss_user = 2\<rparr>
   \<and> findShop [example_game] (JStr ''tok'') = Some (0, example_shop)
   \<and> g_liveUser example_game = Some 2
   \<and> w_userId example_world (s_user example_shop) \<noteq> w_userId example_world 2
   \<and> w_isInRange example_world (w_userLocation example_world (s_user example_shop))
        (w_userLocation example_world 2) 25
   \<and> g_out example_game = Some 10 \<and> g_money example_game = Some 0
   \<and> parseInt (JNum 3) = Some 3
   \<and> handler [example_game] (example_packet (JNum 3)) example_socket =
        \<lparr>sent = [], thrown = Some SelfNotDefined, games = [example_game]\<rparr>"
  by (simp add: handler_def buyOut_def shop_isUserInRange_def shop_getRange_def getConfig_def
      fetch_def on_success_def shop_isInRangeMemory_def field_def truthy_def parseInt_def
      isShopToken_def Let_def
      example_game_def example_packet_def example_socket_def example_shop_def
      example_world_def example_config_def)

text \<open>
  Claim C9. The same user asks to sell zero goods with a well-formed packet. The
  handler should answer with an error message. The handling ends in the shop's range
  check, which throws before any message is sent.
\<close>

theorem handler_zero_amount_throws:
  "findShop [example_game] (JStr ''tok'') = Some (0, example_shop)
   \<and> g_liveUser example_game = Some 2
   \<and> parseInt (JNum 0) = Some 0
   \<and> handler [example_game] (example_packet (JNum 0)) example_socket =
        \<lparr>sent = [], thrown = Some SelfNotDefined, games = [example_game]\<rparr>"
  by (simp add: handler_def buyOut_def shop_isUserInRange_def shop_getRange_def getConfig_def
      fetch_def on_success_def shop_isInRangeMemory_def field_def truthy_def parseInt_def
      isShopToken_def Let_def
      example_game_def example_packet_def example_socket_def example_shop_def
      example_world_def example_config_def)

text \<open>
  The guard of the handler accepts a packet on its \<open>amount\<close> property, the amount is
  read from \<open>outAmount\<close>. The owner's packet with \<open>amount\<close> 0 and no \<open>outAmount\<close> gives
  \<open>parseInt(undefined)\<close>, which is \<open>NaN\<close> and passes the three tests on the amount.
\<close>

lemma handler_reads_outAmount:
  "handler [example_game\<lparr>g_liveUser := Some 1\<rparr>]
     \<lparr>p_shop = Some (JStr ''tok''), p_amount = Some (JNum 0), p_outAmount = None, p_all = None\<rparr>
     example_socket =
     \<lparr>sent = [Sold None None], thrown = None,
      games = [example_game\<lparr>g_liveUser := Some 1, g_out := None, g_money := None\<rparr>]\<rparr>"
  by (simp add: handler_def buyOut_def shop_isUserInRange_def
      fetch_def field_def truthy_def parseInt_def js_gt_def js_lt_def js_sub_def js_add_def
      roundedProduct_def subtractOut_def addMoney_def isShopToken_def Let_def
      example_game_def example_socket_def example_shop_def example_world_def)

end
